theory Spec2Isabelle
  imports Main "HOL-Library.Char_ord" "HOL-Library.List_Lexorder" "HOL-Library.AList"
begin

section \<open>The JSON text format, as Go's encoding/json reads and writes it\<close>

text \<open>
  The two source files call Go's \<^verbatim>\<open>encoding/json\<close> on raw byte strings, and
  \<^verbatim>\<open>do_gl_namespace\<close> slices such a byte string by position, so JSON is modelled at
  the level of bytes. A Go \<^verbatim>\<open>string\<close> or \<^verbatim>\<open>[]byte\<close> is a \<^typ>\<open>string\<close> (a list of
  8-bit characters). The scanner below follows \<^verbatim>\<open>encoding/json/scanner.go\<close>: one step per
  input byte, numbers recognised by the same eight states, string escapes checked while
  scanning and decoded afterwards (\<^verbatim>\<open>unquote\<close>), containers kept on an explicit stack of
  at most 10000 frames. A number keeps its literal text, as the decoder converts it only
  when it knows the Go type it is stored into.
\<close>


datatype json =
    JNull
  | JBool bool
  | JNumber string
  | JString string
  | JArray "json list"
  | JObject "(string \<times> json) list"

datatype token =
    TLBrace | TRBrace | TLBrack | TRBrack | TColon | TComma
  | TString string | TNumber string | TTrue | TFalse | TNull | TBad

datatype numst = NNeg | NZero | NInt | NDot | NFrac | NExp | NExpSign | NExpDig

datatype lexmode =
    LIdle
  | LStr string
  | LEsc string
  | LHex nat string
  | LNum numst string
  | LLit string token

definition isSpace :: "char \<Rightarrow> bool" where
  "isSpace c \<longleftrightarrow> c = CHR '' '' \<or> c = CHR 0x09 \<or> c = CHR 0x0D \<or> c = CHR 0x0A"

definition isDigit :: "char \<Rightarrow> bool" where
  "isDigit c \<longleftrightarrow> CHR ''0'' \<le> c \<and> c \<le> CHR ''9''"

definition isHex :: "char \<Rightarrow> bool" where
  "isHex c \<longleftrightarrow> isDigit c \<or> (CHR ''a'' \<le> c \<and> c \<le> CHR ''f'') \<or> (CHR ''A'' \<le> c \<and> c \<le> CHR ''F'')"

definition idle_step :: "char \<Rightarrow> token list \<times> lexmode option" where
  "idle_step c =
     (if isSpace c then ([], Some LIdle)
      else if c = CHR ''{'' then ([TLBrace], Some LIdle)
      else if c = CHR ''}'' then ([TRBrace], Some LIdle)
      else if c = CHR ''['' then ([TLBrack], Some LIdle)
      else if c = CHR '']'' then ([TRBrack], Some LIdle)
      else if c = CHR '':'' then ([TColon], Some LIdle)
      else if c = CHR '','' then ([TComma], Some LIdle)
      else if c = CHR 0x22 then ([], Some (LStr []))
      else if c = CHR ''-'' then ([], Some (LNum NNeg [c]))
      else if c = CHR ''0'' then ([], Some (LNum NZero [c]))
      else if isDigit c then ([], Some (LNum NInt [c]))
      else if c = CHR ''t'' then ([], Some (LLit ''rue'' TTrue))
      else if c = CHR ''f'' then ([], Some (LLit ''alse'' TFalse))
      else if c = CHR ''n'' then ([], Some (LLit ''ull'' TNull))
      else ([], None))"

fun num_next :: "numst \<Rightarrow> char \<Rightarrow> numst option" where
  "num_next NNeg c =
     (if c = CHR ''0'' then Some NZero else if isDigit c then Some NInt else None)"
| "num_next NZero c =
     (if c = CHR ''.'' then Some NDot
      else if c = CHR ''e'' \<or> c = CHR ''E'' then Some NExp else None)"
| "num_next NInt c =
     (if isDigit c then Some NInt
      else if c = CHR ''.'' then Some NDot
      else if c = CHR ''e'' \<or> c = CHR ''E'' then Some NExp else None)"
| "num_next NDot c = (if isDigit c then Some NFrac else None)"
| "num_next NFrac c =
     (if isDigit c then Some NFrac
      else if c = CHR ''e'' \<or> c = CHR ''E'' then Some NExp else None)"
| "num_next NExp c =
     (if c = CHR ''+'' \<or> c = CHR ''-'' then Some NExpSign
      else if isDigit c then Some NExpDig else None)"
| "num_next NExpSign c = (if isDigit c then Some NExpDig else None)"
| "num_next NExpDig c = (if isDigit c then Some NExpDig else None)"

fun num_final :: "numst \<Rightarrow> bool" where
  "num_final NZero = True"
| "num_final NInt = True"
| "num_final NFrac = True"
| "num_final NExpDig = True"
| "num_final _ = False"

definition lex_step :: "lexmode \<Rightarrow> char \<Rightarrow> token list \<times> lexmode option" where
  "lex_step m c =
     (case m of
        LIdle \<Rightarrow> idle_step c
      | LStr acc \<Rightarrow>
          (if c = CHR 0x22 then ([TString (rev acc)], Some LIdle)
           else if c = CHR 0x5C then ([], Some (LEsc (c # acc)))
           else if c < CHR 0x20 then ([], None)
           else ([], Some (LStr (c # acc))))
      | LEsc acc \<Rightarrow>
          (if c \<in> set ''bfnrt/'' \<or> c = CHR 0x22 \<or> c = CHR 0x5C then ([], Some (LStr (c # acc)))
           else if c = CHR ''u'' then ([], Some (LHex 4 (c # acc)))
           else ([], None))
      | LHex n acc \<Rightarrow>
          (if isHex c then ([], Some (if n \<le> 1 then LStr (c # acc) else LHex (n - 1) (c # acc)))
           else ([], None))
      | LNum st acc \<Rightarrow>
          (case num_next st c of
             Some st' \<Rightarrow> ([], Some (LNum st' (c # acc)))
           | None \<Rightarrow>
               if num_final st
               then (case idle_step c of (ts, m') \<Rightarrow> (TNumber (rev acc) # ts, m'))
               else ([], None))
      | LLit rest tok \<Rightarrow>
          (case rest of
             [] \<Rightarrow> ([], None)
           | r # rs \<Rightarrow>
               if c = r then (if rs = [] then ([tok], Some LIdle) else ([], Some (LLit rs tok)))
               else ([], None)))"

fun lex_end :: "lexmode \<Rightarrow> token list" where
  "lex_end LIdle = []"
| "lex_end (LNum st acc) = (if num_final st then [TNumber (rev acc)] else [TBad])"
| "lex_end _ = [TBad]"

fun lex :: "lexmode \<Rightarrow> string \<Rightarrow> token list" where
  "lex m [] = lex_end m"
| "lex m (c # cs) =
     (case lex_step m c of
        (ts, None) \<Rightarrow> ts @ [TBad]
      | (ts, Some m') \<Rightarrow> ts @ lex m' cs)"

definition hexval :: "char \<Rightarrow> int" where
  "hexval c =
     (if isDigit c then of_char c - 48
      else if CHR ''a'' \<le> c \<and> c \<le> CHR ''f'' then of_char c - 87
      else of_char c - 55)"

definition getu4 :: "string \<Rightarrow> int option" where
  "getu4 s =
     (case s of
        a # b # c # d # _ \<Rightarrow>
          if isHex a \<and> isHex b \<and> isHex c \<and> isHex d
          then Some (((hexval a * 16 + hexval b) * 16 + hexval c) * 16 + hexval d)
          else None
      | _ \<Rightarrow> None)"

definition byte :: "int \<Rightarrow> char" where
  "byte n = char_of n"

definition EncodeRune :: "int \<Rightarrow> string" where
  "EncodeRune r =
     (if r < 0x80 then [byte r]
      else if r < 0x800 then [byte (0xC0 + r div 64), byte (0x80 + r mod 64)]
      else if r < 0x10000 then
        [byte (0xE0 + r div 4096), byte (0x80 + (r div 64) mod 64), byte (0x80 + r mod 64)]
      else
        [byte (0xF0 + r div 262144), byte (0x80 + (r div 4096) mod 64),
         byte (0x80 + (r div 64) mod 64), byte (0x80 + r mod 64)])"

definition ReplacementChar :: int where
  "ReplacementChar = 0xFFFD"

definition IsSurrogate :: "int \<Rightarrow> bool" where
  "IsSurrogate r \<longleftrightarrow> 0xD800 \<le> r \<and> r < 0xE000"

definition DecodeSurrogates :: "int \<Rightarrow> int \<Rightarrow> int" where
  "DecodeSurrogates r1 r2 =
     (if 0xD800 \<le> r1 \<and> r1 < 0xDC00 \<and> 0xDC00 \<le> r2 \<and> r2 < 0xE000
      then (r1 - 0xD800) * 1024 + (r2 - 0xDC00) + 0x10000
      else ReplacementChar)"

definition escaped_u :: "string \<Rightarrow> int option" where
  "escaped_u s =
     (case s of
        x # y # r \<Rightarrow> if x = CHR 0x5C \<and> y = CHR ''u'' then getu4 r else None
      | _ \<Rightarrow> None)"

definition escape_char :: "char \<Rightarrow> char" where
  "escape_char e =
     (if e = CHR ''b'' then CHR 0x08
      else if e = CHR ''f'' then CHR 0x0C
      else if e = CHR ''n'' then CHR 0x0A
      else if e = CHR ''r'' then CHR 0x0D
      else if e = CHR ''t'' then CHR 0x09
      else e)"

definition in_range :: "char \<Rightarrow> char \<Rightarrow> char \<Rightarrow> bool" where
  "in_range lo hi c \<longleftrightarrow> lo \<le> c \<and> c \<le> hi"

fun rune_len :: "string \<Rightarrow> nat" where
  "rune_len [] = 0"
| "rune_len (c # cs) =
     (if in_range (CHR 0x00) (CHR 0x7F) c then 1
      else if in_range (CHR 0xC2) (CHR 0xDF) c then
        (case cs of c1 # _ \<Rightarrow> if in_range (CHR 0x80) (CHR 0xBF) c1 then 2 else 0 | _ \<Rightarrow> 0)
      else if in_range (CHR 0xE0) (CHR 0xEF) c then
        (case cs of
           c1 # c2 # _ \<Rightarrow>
             if in_range (if c = CHR 0xE0 then CHR 0xA0 else CHR 0x80) (if c = CHR 0xED then CHR 0x9F else CHR 0xBF) c1
                \<and> in_range (CHR 0x80) (CHR 0xBF) c2
             then 3 else 0
         | _ \<Rightarrow> 0)
      else if in_range (CHR 0xF0) (CHR 0xF4) c then
        (case cs of
           c1 # c2 # c3 # _ \<Rightarrow>
             if in_range (if c = CHR 0xF0 then CHR 0x90 else CHR 0x80) (if c = CHR 0xF4 then CHR 0x8F else CHR 0xBF) c1
                \<and> in_range (CHR 0x80) (CHR 0xBF) c2 \<and> in_range (CHR 0x80) (CHR 0xBF) c3
             then 4 else 0
         | _ \<Rightarrow> 0)
      else 0)"

definition unquote_step :: "char \<Rightarrow> string \<Rightarrow> string \<times> nat" where
  "unquote_step c cs =
     (if c = CHR 0x5C then
        (case cs of
           [] \<Rightarrow> ([], 0)
         | e # r \<Rightarrow>
             if e = CHR ''u'' then
               (case getu4 r of
                  None \<Rightarrow> ([], 1)
                | Some rr \<Rightarrow>
                    if IsSurrogate rr then
                      (case escaped_u (drop 4 r) of
                         None \<Rightarrow> (EncodeRune ReplacementChar, 5)
                       | Some rr1 \<Rightarrow>
                           if DecodeSurrogates rr rr1 \<noteq> ReplacementChar
                           then (EncodeRune (DecodeSurrogates rr rr1), 11)
                           else (EncodeRune ReplacementChar, 5))
                    else (EncodeRune rr, 5))
             else ([escape_char e], 1))
      else
        (case rune_len (c # cs) of
           0 \<Rightarrow> (EncodeRune ReplacementChar, 0)
         | Suc k \<Rightarrow> (c # take k cs, k)))"

fun unquote :: "string \<Rightarrow> string" where
  "unquote [] = []"
| "unquote (c # cs) = (case unquote_step c cs of (out, n) \<Rightarrow> out @ unquote (drop n cs))"

datatype frame = FArr "json list" | FObj "(string \<times> json) list" "string option"

datatype expect = EValue | EFirstElem | EFirstKey | EKey | EColon | EMore | EDone json

definition maxNestingDepth :: nat where
  "maxNestingDepth = 10000"

fun close_value :: "json \<Rightarrow> frame list \<Rightarrow> (expect \<times> frame list) option" where
  "close_value v [] = Some (EDone v, [])"
| "close_value v (FArr es # st) = Some (EMore, FArr (v # es) # st)"
| "close_value v (FObj kvs (Some k) # st) = Some (EMore, FObj ((k, v) # kvs) None # st)"
| "close_value v (FObj kvs None # st) = None"

fun begin_value :: "token \<Rightarrow> frame list \<Rightarrow> (expect \<times> frame list) option" where
  "begin_value TLBrace st =
     (if length st < maxNestingDepth then Some (EFirstKey, FObj [] None # st) else None)"
| "begin_value TLBrack st =
     (if length st < maxNestingDepth then Some (EFirstElem, FArr [] # st) else None)"
| "begin_value (TString s) st = close_value (JString (unquote s)) st"
| "begin_value (TNumber n) st = close_value (JNumber n) st"
| "begin_value TTrue st = close_value (JBool True) st"
| "begin_value TFalse st = close_value (JBool False) st"
| "begin_value TNull st = close_value JNull st"
| "begin_value _ st = None"

fun begin_key :: "token \<Rightarrow> frame list \<Rightarrow> (expect \<times> frame list) option" where
  "begin_key (TString s) (FObj kvs None # st) = Some (EColon, FObj kvs (Some (unquote s)) # st)"
| "begin_key _ _ = None"

fun end_container :: "token \<Rightarrow> frame list \<Rightarrow> (expect \<times> frame list) option" where
  "end_container TRBrack (FArr es # st) = close_value (JArray (rev es)) st"
| "end_container TRBrace (FObj kvs None # st) = close_value (JObject (rev kvs)) st"
| "end_container _ _ = None"

fun next_item :: "frame list \<Rightarrow> (expect \<times> frame list) option" where
  "next_item (FArr es # st) = Some (EValue, FArr es # st)"
| "next_item (FObj kvs None # st) = Some (EKey, FObj kvs None # st)"
| "next_item _ = None"

fun pstep :: "expect \<Rightarrow> frame list \<Rightarrow> token \<Rightarrow> (expect \<times> frame list) option" where
  "pstep EValue st t = begin_value t st"
| "pstep EFirstElem st t = (if t = TRBrack then end_container t st else begin_value t st)"
| "pstep EFirstKey st t = (if t = TRBrace then end_container t st else begin_key t st)"
| "pstep EKey st t = begin_key t st"
| "pstep EColon st t = (if t = TColon then Some (EValue, st) else None)"
| "pstep EMore st t = (if t = TComma then next_item st else end_container t st)"
| "pstep (EDone v) st t = None"

fun parse_run :: "bool \<Rightarrow> expect \<Rightarrow> frame list \<Rightarrow> token list \<Rightarrow> json option" where
  "parse_run stream (EDone v) st ts = (if stream \<or> ts = [] then Some v else None)"
| "parse_run stream e st [] = None"
| "parse_run stream e st (t # ts) =
     (case pstep e st t of
        None \<Rightarrow> None
      | Some (e', st') \<Rightarrow> parse_run stream e' st' ts)"

definition json_parse :: "string \<Rightarrow> json option" where
  "json_parse b = parse_run False EValue [] (lex LIdle b)"

definition json_parse_first :: "string \<Rightarrow> json option" where
  "json_parse_first b = parse_run True EValue [] (lex LIdle b)"


subsection \<open>Writing JSON text (json.Marshal)\<close>

text \<open>
  \<^verbatim>\<open>json.Marshal\<close> writes compact text. In a string it escapes the quote and the
  backslash, writes \<^verbatim>\<open>\n\<close>, \<^verbatim>\<open>\r\<close>, \<^verbatim>\<open>\t\<close> for these three control bytes and
  \<^verbatim>\<open>\u00XX\<close> for the other bytes below 0x20 and for \<^verbatim>\<open><\<close>, \<^verbatim>\<open>>\<close>, \<^verbatim>\<open>&\<close>; a byte that
  starts no well-formed UTF-8 sequence becomes the escape of U+FFFD, and U+2028 and U+2029
  are written as escapes. (From Go 1.22 on the bytes 0x08 and 0x0C are written \<^verbatim>\<open>\b\<close>
  and \<^verbatim>\<open>\f\<close>; both forms read back as the same byte.)
\<close>

definition hex :: string where
  "hex = ''0123456789abcdef''"

definition upperhex :: string where
  "upperhex = ''0123456789ABCDEF''"

definition quote_step :: "char \<Rightarrow> string \<Rightarrow> string \<times> nat" where
  "quote_step c cs =
     (if in_range (CHR 0x00) (CHR 0x7F) c then
        (if c = CHR 0x22 \<or> c = CHR 0x5C then ([CHR 0x5C, c], 0)
         else if c = CHR 0x0A then ([CHR 0x5C, CHR ''n''], 0)
         else if c = CHR 0x0D then ([CHR 0x5C, CHR ''r''], 0)
         else if c = CHR 0x09 then ([CHR 0x5C, CHR ''t''], 0)
         else if in_range (CHR 0x00) (CHR 0x1F) c \<or> c = CHR ''<'' \<or> c = CHR ''>'' \<or> c = CHR ''&''
         then (CHR 0x5C # ''u00'' @ [hex ! (of_char c div 16), hex ! (of_char c mod 16)], 0)
         else ([c], 0))
      else
        (case rune_len (c # cs) of
           0 \<Rightarrow> (CHR 0x5C # ''ufffd'', 0)
         | Suc k \<Rightarrow>
             if c # take k cs = [CHR 0xE2, CHR 0x80, CHR 0xA8] then (CHR 0x5C # ''u2028'', k)
             else if c # take k cs = [CHR 0xE2, CHR 0x80, CHR 0xA9] then (CHR 0x5C # ''u2029'', k)
             else (c # take k cs, k)))"

fun quote_body :: "string \<Rightarrow> string" where
  "quote_body [] = []"
| "quote_body (c # cs) = (case quote_step c cs of (out, n) \<Rightarrow> out @ quote_body (drop n cs))"

definition quote :: "string \<Rightarrow> string" where
  "quote s = CHR 0x22 # quote_body s @ [CHR 0x22]"

fun join :: "string \<Rightarrow> string list \<Rightarrow> string" where
  "join sep [] = []"
| "join sep [x] = x"
| "join sep (x # y # zs) = x @ sep @ join sep (y # zs)"

fun render :: "json \<Rightarrow> string" where
  "render JNull = ''null''"
| "render (JBool b) = (if b then ''true'' else ''false'')"
| "render (JNumber n) = n"
| "render (JString s) = quote s"
| "render (JArray vs) = ''['' @ join '','' (map render vs) @ '']''"
| "render (JObject kvs) =
     ''{'' @ join '','' (map (\<lambda>kv. quote (fst kv) @ '':'' @ render (snd kv)) kvs) @ ''}''"

section \<open>Go's strconv, net/http headers and net/url, as far as the client uses them\<close>

datatype NumError = ErrSyntax | ErrRange

text \<open>
  \<^verbatim>\<open>strconv.ParseUint(s, 10, 64)\<close>: the loop leaves at the first byte that is no digit
  with value 0, and at the first overflow with the largest value, without reading on.
\<close>

definition maxUint64 :: int where
  "maxUint64 = 18446744073709551615"

definition maxInt64 :: int where
  "maxInt64 = 9223372036854775807"

fun ParseUint_loop :: "string \<Rightarrow> int \<Rightarrow> int \<times> NumError option" where
  "ParseUint_loop [] n = (n, None)"
| "ParseUint_loop (c # cs) n =
     (if \<not> isDigit c then (0, Some ErrSyntax)
      else if n \<ge> maxUint64 div 10 + 1 then (maxUint64, Some ErrRange)
      else if n * 10 + (of_char c - 48) > maxUint64 then (maxUint64, Some ErrRange)
      else ParseUint_loop cs (n * 10 + (of_char c - 48)))"

definition ParseUint :: "string \<Rightarrow> int \<times> NumError option" where
  "ParseUint s = (if s = [] then (0, Some ErrSyntax) else ParseUint_loop s 0)"

text \<open>
  \<^verbatim>\<open>strconv.ParseInt(s, 10, 64)\<close>. A syntax error gives 0; a value out of range gives
  the nearest bound together with \<^verbatim>\<open>ErrRange\<close>.
\<close>

definition ParseInt :: "string \<Rightarrow> int \<times> NumError option" where
  "ParseInt s =
     (case s of
        [] \<Rightarrow> (0, Some ErrSyntax)
      | c # cs \<Rightarrow>
          (let neg = (c = CHR ''-'');
               s' = (if c = CHR ''+'' \<or> c = CHR ''-'' then cs else s)
           in case ParseUint s' of
                (un, Some ErrSyntax) \<Rightarrow> (0, Some ErrSyntax)
              | (un, _) \<Rightarrow>
                  if \<not> neg \<and> un \<ge> maxInt64 + 1 then (maxInt64, Some ErrRange)
                  else if neg \<and> un > maxInt64 + 1 then (- (maxInt64 + 1), Some ErrRange)
                  else (if neg then - un else un, None)))"

text \<open>
  \<^verbatim>\<open>strconv.Atoi\<close> is \<^verbatim>\<open>ParseInt(s, 10, 0)\<close> converted to \<^verbatim>\<open>int\<close>; \<^verbatim>\<open>int\<close> is taken
  to be 64 bits wide.
\<close>

definition Atoi :: "string \<Rightarrow> int \<times> NumError option" where
  "Atoi s = ParseInt s"

type_synonym Header = "(string \<times> string list) list"

definition upper :: "char \<Rightarrow> char" where
  "upper c = (if CHR ''a'' \<le> c \<and> c \<le> CHR ''z'' then char_of (of_char c - 32 :: int) else c)"

definition lower :: "char \<Rightarrow> char" where
  "lower c = (if CHR ''A'' \<le> c \<and> c \<le> CHR ''Z'' then char_of (of_char c + 32 :: int) else c)"

fun canonical :: "bool \<Rightarrow> string \<Rightarrow> string" where
  "canonical up [] = []"
| "canonical up (c # cs) = (if up then upper c else lower c) # canonical (c = CHR ''-'') cs"

text \<open>
  \<^verbatim>\<open>textproto.CanonicalMIMEHeaderKey\<close>, for keys made of letters, digits and hyphens (the
  three keys the client asks for are such): the first letter and every letter after a
  hyphen in upper case, the others in lower case. A header received by \<^verbatim>\<open>net/http\<close> is
  stored under its canonical key.
\<close>

definition CanonicalMIMEHeaderKey :: "string \<Rightarrow> string" where
  "CanonicalMIMEHeaderKey k = canonical True k"

definition Header_Get :: "Header \<Rightarrow> string \<Rightarrow> string" where
  "Header_Get h key =
     (case map_of h (CanonicalMIMEHeaderKey key) of
        Some (v # vs) \<Rightarrow> v
      | _ \<Rightarrow> [])"

definition Header_Set :: "Header \<Rightarrow> string \<Rightarrow> string \<Rightarrow> Header" where
  "Header_Set h key v = AList.update (CanonicalMIMEHeaderKey key) [v] h"

type_synonym Values = "(string \<times> string list) list"

definition Values_Set :: "Values \<Rightarrow> string \<Rightarrow> string \<Rightarrow> Values" where
  "Values_Set v key val = AList.update key [val] v"

definition shouldEscape :: "char \<Rightarrow> bool" where
  "shouldEscape c \<longleftrightarrow>
     \<not> ((CHR ''a'' \<le> c \<and> c \<le> CHR ''z'') \<or> (CHR ''A'' \<le> c \<and> c \<le> CHR ''Z'') \<or> isDigit c
        \<or> c = CHR ''-'' \<or> c = CHR ''_'' \<or> c = CHR ''.'' \<or> c = CHR ''~'')"

fun QueryEscape :: "string \<Rightarrow> string" where
  "QueryEscape [] = []"
| "QueryEscape (c # cs) =
     (if c = CHR '' '' then CHR ''+'' # QueryEscape cs
      else if shouldEscape c
      then CHR ''%'' # upperhex ! (of_char c div 16) # upperhex ! (of_char c mod 16) # QueryEscape cs
      else c # QueryEscape cs)"

text \<open>\<^verbatim>\<open>url.Values.Encode\<close>: the keys in ascending order, \<^verbatim>\<open>key=value\<close> joined by \<^verbatim>\<open>&\<close>.\<close>

definition Values_Encode :: "Values \<Rightarrow> string" where
  "Values_Encode v =
     join ''&''
       (concat (map (\<lambda>kv. map (\<lambda>val. QueryEscape (fst kv) @ ''='' @ QueryEscape val) (snd kv))
                    (sort_key fst v)))"

section \<open>Errors, panics and decoding into Go values\<close>

text \<open>The GitLab error body, \<^verbatim>\<open>type Error struct { Message string `json:"message"` }\<close>.\<close>

record Error =
  Message :: string

text \<open>
  A Go \<^verbatim>\<open>error\<close> value: what \<^verbatim>\<open>Client.Do\<close> failed with, the errors of
  \<^verbatim>\<open>encoding/json\<close>, or a \<^verbatim>\<open>*Error\<close>, which is a pointer and can be nil inside a
  non-nil interface value.
\<close>

datatype error =
    TransportError string
  | SyntaxError
  | UnmarshalTypeError
  | InvalidUnmarshalError
  | UnsupportedValueError
  | GitlabError "Error option"

datatype panic = NilPointerDereference | SliceBoundsOutOfRange

datatype 'a outcome = Returned 'a | Panicked panic

text \<open>\<^verbatim>\<open>func (e *Error) Error() string { return e.Message }\<close> (gitlab.go, lines 256-258).\<close>

definition Error_Error :: "Error option \<Rightarrow> string outcome" where
  "Error_Error e =
     (case e of
        None \<Rightarrow> Panicked NilPointerDereference
      | Some e' \<Rightarrow> Returned (Message e'))"

text \<open>
  A JSON key selects the struct field whose name it equals when letter case is ignored;
  the long s (U+017F) and the Kelvin sign (U+212A) count as \<^verbatim>\<open>s\<close> and \<^verbatim>\<open>k\<close>. No two
  fields of the structs below have names that fold to the same text, so exact matches
  need no preference.
\<close>

fun foldName :: "string \<Rightarrow> string" where
  "foldName [] = []"
| "foldName (c # cs) =
     (if take 2 (c # cs) = [CHR 0xC5, CHR 0xBF] then CHR ''S'' # foldName (drop 1 cs)
      else if take 3 (c # cs) = [CHR 0xE2, CHR 0x84, CHR 0xAA] then CHR ''K'' # foldName (drop 2 cs)
      else upper c # foldName cs)"

text \<open>
  Storing one JSON value into a field: \<^verbatim>\<open>null\<close> leaves a string or an integer as it is,
  a value of the wrong kind (or an integer literal with a fraction, an exponent or out of
  range) is skipped and reported as an \<^verbatim>\<open>UnmarshalTypeError\<close> once the whole value has
  been read.
\<close>

datatype 'a stored = Stored 'a | Unchanged | Mismatch

fun store_string :: "json \<Rightarrow> string stored" where
  "store_string (JString s) = Stored s"
| "store_string JNull = Unchanged"
| "store_string _ = Mismatch"

fun store_int :: "json \<Rightarrow> int stored" where
  "store_int (JNumber lit) = (case ParseInt lit of (n, None) \<Rightarrow> Stored n | _ \<Rightarrow> Mismatch)"
| "store_int JNull = Unchanged"
| "store_int _ = Mismatch"

definition set_field :: "'a stored \<Rightarrow> ('a \<Rightarrow> 's) \<Rightarrow> 's \<Rightarrow> 's \<times> bool" where
  "set_field r upd s =
     (case r of
        Stored a \<Rightarrow> (upd a, False)
      | Unchanged \<Rightarrow> (s, False)
      | Mismatch \<Rightarrow> (s, True))"

fun fill :: "(string \<Rightarrow> json \<Rightarrow> 's \<Rightarrow> 's \<times> bool) \<Rightarrow> (string \<times> json) list \<Rightarrow> 's \<Rightarrow> 's \<times> bool" where
  "fill field [] s = (s, False)"
| "fill field ((k, v) # kvs) s =
     (case field k v s of
        (s1, bad1) \<Rightarrow> (case fill field kvs s1 of (s2, bad2) \<Rightarrow> (s2, bad1 \<or> bad2)))"

definition decode_struct ::
  "(string \<Rightarrow> json \<Rightarrow> 's \<Rightarrow> 's \<times> bool) \<Rightarrow> json \<Rightarrow> 's \<Rightarrow> 's \<times> error option" where
  "decode_struct field v s =
     (case v of
        JObject kvs \<Rightarrow>
          (case fill field kvs s of (s', bad) \<Rightarrow> (s', if bad then Some UnmarshalTypeError else None))
      | JNull \<Rightarrow> (s, None)
      | _ \<Rightarrow> (s, Some UnmarshalTypeError))"

text \<open>
  \<^verbatim>\<open>json.Unmarshal(b, p)\<close> with \<^verbatim>\<open>p\<close> a non-nil pointer to a struct whose value is \<open>s\<close>:
  the text is checked as a whole first, so a syntax error changes nothing.
\<close>

definition Unmarshal_ptr ::
  "(string \<Rightarrow> json \<Rightarrow> 's \<Rightarrow> 's \<times> bool) \<Rightarrow> string \<Rightarrow> 's \<Rightarrow> 's \<times> error option" where
  "Unmarshal_ptr field b s =
     (case json_parse b of
        None \<Rightarrow> (s, Some SyntaxError)
      | Some v \<Rightarrow> decode_struct field v s)"

text \<open>
  \<^verbatim>\<open>json.NewDecoder(r).Decode(p)\<close>: as \<^verbatim>\<open>Unmarshal\<close> on the first JSON value of the
  stream; what follows that value is not read.
\<close>

definition Decode_ptr ::
  "(string \<Rightarrow> json \<Rightarrow> 's \<Rightarrow> 's \<times> bool) \<Rightarrow> string \<Rightarrow> 's \<Rightarrow> 's \<times> error option" where
  "Decode_ptr field b s =
     (case json_parse_first b of
        None \<Rightarrow> (s, Some SyntaxError)
      | Some v \<Rightarrow> decode_struct field v s)"

text \<open>
  \<^verbatim>\<open>json.Unmarshal(b, &p)\<close> with \<^verbatim>\<open>p\<close> itself a pointer to a struct (\<open>None\<close> is the nil
  pointer), directly or held in an \<^verbatim>\<open>interface{}\<close>: the JSON literal \<^verbatim>\<open>null\<close> sets
  \<^verbatim>\<open>p\<close> to nil; any other value is decoded into the struct \<^verbatim>\<open>p\<close> points to, which is
  allocated first when \<^verbatim>\<open>p\<close> is nil.
\<close>

definition Unmarshal_ptr_ptr ::
  "(string \<Rightarrow> json \<Rightarrow> 's \<Rightarrow> 's \<times> bool) \<Rightarrow> 's \<Rightarrow> string \<Rightarrow> 's option \<Rightarrow> 's option \<times> error option" where
  "Unmarshal_ptr_ptr field zero b p =
     (case json_parse b of
        None \<Rightarrow> (p, Some SyntaxError)
      | Some JNull \<Rightarrow> (None, None)
      | Some v \<Rightarrow>
          (case decode_struct field v (case p of None \<Rightarrow> zero | Some s \<Rightarrow> s) of
             (s', e) \<Rightarrow> (Some s', e)))"

definition Error_field :: "string \<Rightarrow> json \<Rightarrow> Error \<Rightarrow> Error \<times> bool" where
  "Error_field key v e =
     (if foldName key = foldName ''message''
      then set_field (store_string v) (\<lambda>s. e\<lparr>Message := s\<rparr>) e
      else (e, False))"

definition new_Error :: Error where
  "new_Error = \<lparr>Message = []\<rparr>"

section \<open>The GitLab client (scm/driver/gitlab/gitlab.go)\<close>

text \<open>\<^verbatim>\<open>type gl_namespace struct\<close> (lines 97-106), each field with its JSON key.\<close>

record gl_namespace =
  ID :: int
  Name :: string
  Path :: string
  Kind :: string
  FullPath :: string
  ParentID :: int
  AvatarURL :: string
  WebURL :: string

definition new_gl_namespace :: gl_namespace where
  "new_gl_namespace =
     \<lparr>ID = 0, Name = [], Path = [], Kind = [], FullPath = [], ParentID = 0,
      AvatarURL = [], WebURL = []\<rparr>"

definition gl_namespace_field :: "string \<Rightarrow> json \<Rightarrow> gl_namespace \<Rightarrow> gl_namespace \<times> bool" where
  "gl_namespace_field key v n =
     (if foldName key = foldName ''id''
      then set_field (store_int v) (\<lambda>x. n\<lparr>gl_namespace.ID := x\<rparr>) n
      else if foldName key = foldName ''name''
      then set_field (store_string v) (\<lambda>x. n\<lparr>Name := x\<rparr>) n
      else if foldName key = foldName ''path''
      then set_field (store_string v) (\<lambda>x. n\<lparr>Path := x\<rparr>) n
      else if foldName key = foldName ''kind''
      then set_field (store_string v) (\<lambda>x. n\<lparr>Kind := x\<rparr>) n
      else if foldName key = foldName ''full_path''
      then set_field (store_string v) (\<lambda>x. n\<lparr>FullPath := x\<rparr>) n
      else if foldName key = foldName ''parent_id''
      then set_field (store_int v) (\<lambda>x. n\<lparr>ParentID := x\<rparr>) n
      else if foldName key = foldName ''avatar_url''
      then set_field (store_string v) (\<lambda>x. n\<lparr>AvatarURL := x\<rparr>) n
      else if foldName key = foldName ''web_url''
      then set_field (store_string v) (\<lambda>x. n\<lparr>WebURL := x\<rparr>) n
      else (n, False))"

text \<open>
  The types of package \<^verbatim>\<open>scm\<close> that the executor uses are declared in files that are
  not among the sources (\<^verbatim>\<open>scm/client.go\<close>); their fields are taken from the uses in
  \<^verbatim>\<open>gitlab.go\<close>: a request has a method, a path, a header and an optional body; a
  response has an id, a status, a header, a body (the bytes that reading it to its end
  gives) and a rate.
\<close>

record Rate =
  Limit :: int
  Remaining :: int
  Reset :: int

record Request =
  Method :: string
  Path :: string
  Header :: Header
  Body :: "string option"

record Response =
  ID :: string
  Status :: int
  Header :: Header
  Body :: string
  Rate :: Rate

text \<open>
  Modelled from the spec: \<^verbatim>\<open>scm.Client\<close> and its method \<^verbatim>\<open>SetRate\<close> (in
  \<^verbatim>\<open>scm/client.go\<close>, not among the sources). The spec's Rate Limiter State is one cell
  holding the most recently observed snapshot, and \<^verbatim>\<open>observe(rate)\<close> overwrites it.
\<close>

record Client =
  rate :: Rate

definition SetRate :: "Client \<Rightarrow> Rate \<Rightarrow> Client" where
  "SetRate c r = c\<lparr>rate := r\<rparr>"

text \<open>The Go slice expression \<^verbatim>\<open>s[lo:hi]\<close> on a string: a run-time panic unless
  \<^verbatim>\<open>0 <= lo <= hi <= len(s)\<close>.\<close>

definition slice :: "string \<Rightarrow> int \<Rightarrow> int \<Rightarrow> string outcome" where
  "slice s lo hi =
     (if 0 \<le> lo \<and> lo \<le> hi \<and> hi \<le> int (length s)
      then Returned (take (nat (hi - lo)) (drop (nat lo) s))
      else Panicked SliceBoundsOutOfRange)"

text \<open>
  What a call of \<^verbatim>\<open>do\<close> leaves behind: the client with its rate cell, the two results
  \<^verbatim>\<open>(*scm.Response, error)\<close>, and the value \<^verbatim>\<open>out\<close> points to.
\<close>

record 'o returned =
  ret_client :: Client
  ret_res :: "Response option"
  ret_err :: "error option"
  ret_out :: "'o option"

text \<open>
  The header part shared by both executors (lines 144-159 and 209-224): the request id
  and the three rate-limit headers are read into the response, errors of the integer
  parsers dropped, and the client's rate is set.
\<close>

definition read_headers :: "Response \<Rightarrow> Response" where
  "read_headers res =
     (let res = res\<lparr>Response.ID := Header_Get (Response.Header res) ''X-Request-Id''\<rparr>;
          res = res\<lparr>Rate := (Rate res)\<lparr>Limit := fst (Atoi (Header_Get (Response.Header res) ''RateLimit-Limit''))\<rparr>\<rparr>;
          res = res\<lparr>Rate := (Rate res)\<lparr>Remaining := fst (Atoi (Header_Get (Response.Header res) ''RateLimit-Remaining''))\<rparr>\<rparr>;
          res = res\<lparr>Rate := (Rate res)\<lparr>Reset := fst (ParseInt (Header_Get (Response.Header res) ''RateLimit-Reset''))\<rparr>\<rparr>
      in res)"

text \<open>
  The request both executors build (lines 122-136 and 187-201). \<open>encode\<close> stands for
  \<^verbatim>\<open>json.NewEncoder(buf).Encode(in)\<close> on the dynamic type of \<^verbatim>\<open>in\<close>: the bytes it leaves
  in the buffer.
\<close>

definition new_request :: "('i \<Rightarrow> string) \<Rightarrow> string \<Rightarrow> string \<Rightarrow> 'i option \<Rightarrow> Request" where
  "new_request encode method path in' =
     (let req = \<lparr>Method = method, Path = path, Header = [], Body = None\<rparr>
      in case in' of
           None \<Rightarrow> req
         | Some v \<Rightarrow>
             req\<lparr>Request.Header := Header_Set (Request.Header req) ''Content-Type'' ''application/json'',
                 Request.Body := Some (encode v)\<rparr>)"

text \<open>
  \<^verbatim>\<open>func (c *wrapper) do(ctx, method, path, in, out)\<close> (lines 186-249). \<open>exchange\<close> stands
  for \<^verbatim>\<open>c.Client.Do(ctx, req)\<close>, the HTTP exchange itself (in \<^verbatim>\<open>scm/client.go\<close>).
  \<open>unmarshal\<close> stands for \<^verbatim>\<open>json.Unmarshal(bytes, &out)\<close> on the dynamic type of \<^verbatim>\<open>out\<close>:
  from the body and the value \<^verbatim>\<open>out\<close> points to, the value afterwards and the error.
  \<open>out = None\<close> is the nil interface.
\<close>

definition do ::
  "(Request \<Rightarrow> error + Response) \<Rightarrow> ('i \<Rightarrow> string) \<Rightarrow> (string \<Rightarrow> 'o \<Rightarrow> 'o \<times> error option) \<Rightarrow>
   Client \<Rightarrow> string \<Rightarrow> string \<Rightarrow> 'i option \<Rightarrow> 'o option \<Rightarrow> 'o returned" where
  "do exchange encode unmarshal c method path in' out =
     (let req = new_request encode method path in'
      in case exchange req of
           Inl err \<Rightarrow> \<lparr>ret_client = c, ret_res = None, ret_err = Some err, ret_out = out\<rparr>
         | Inr res \<Rightarrow>
             (let res = read_headers res;
                  c = SetRate c (Rate res)
              in if Status res > 300 then
                   (let str_buf = Response.Body res;
                        err_i = Some new_Error;
                        err_i = fst (Unmarshal_ptr_ptr Error_field new_Error str_buf err_i)
                    in \<lparr>ret_client = c, ret_res = Some res, ret_err = Some (GitlabError err_i),
                        ret_out = out\<rparr>)
                 else
                   (case out of
                      None \<Rightarrow> \<lparr>ret_client = c, ret_res = Some res, ret_err = None, ret_out = None\<rparr>
                    | Some v \<Rightarrow>
                        (let str_buf = Response.Body res
                         in case unmarshal str_buf v of
                              (v', err) \<Rightarrow>
                                \<lparr>ret_client = c, ret_res = Some res, ret_err = err,
                                 ret_out = Some v'\<rparr>))))"

text \<open>
  \<^verbatim>\<open>func (c *wrapper) do_gl_namespace(ctx, method, path, in, out)\<close> (lines 121-182): as
  \<^verbatim>\<open>do\<close>, but the error body is read by a \<^verbatim>\<open>json.Decoder\<close> into the allocated \<^verbatim>\<open>Error\<close>
  itself, and the success body loses its first and its last byte before it is decoded.
\<close>

definition do_gl_namespace ::
  "(Request \<Rightarrow> error + Response) \<Rightarrow> ('i \<Rightarrow> string) \<Rightarrow> (string \<Rightarrow> 'o \<Rightarrow> 'o \<times> error option) \<Rightarrow>
   Client \<Rightarrow> string \<Rightarrow> string \<Rightarrow> 'i option \<Rightarrow> 'o option \<Rightarrow> 'o returned outcome" where
  "do_gl_namespace exchange encode unmarshal c method path in' out =
     (let req = new_request encode method path in'
      in case exchange req of
           Inl err \<Rightarrow> Returned \<lparr>ret_client = c, ret_res = None, ret_err = Some err, ret_out = out\<rparr>
         | Inr res \<Rightarrow>
             (let res = read_headers res;
                  c = SetRate c (Rate res)
              in if Status res > 300 then
                   (let err = new_Error;
                        err = fst (Decode_ptr Error_field (Response.Body res) err)
                    in Returned \<lparr>ret_client = c, ret_res = Some res,
                                 ret_err = Some (GitlabError (Some err)), ret_out = out\<rparr>)
                 else
                   (case out of
                      None \<Rightarrow>
                        Returned \<lparr>ret_client = c, ret_res = Some res, ret_err = None, ret_out = None\<rparr>
                    | Some v \<Rightarrow>
                        (let str_buf = Response.Body res
                         in case slice str_buf 1 (int (length str_buf) - 1) of
                              Panicked p \<Rightarrow> Panicked p
                            | Returned new_str \<Rightarrow>
                                (case unmarshal new_str v of
                                   (v', err) \<Rightarrow>
                                     Returned \<lparr>ret_client = c, ret_res = Some res, ret_err = err,
                                               ret_out = Some v'\<rparr>)))))"

text \<open>
  In \<^verbatim>\<open>findNamespaceByName\<close> the argument \<^verbatim>\<open>in\<close> is nil, so nothing is encoded, and
  \<^verbatim>\<open>out\<close> is \<^verbatim>\<open>&out\<close> for a local \<^verbatim>\<open>out\<close> of type \<^verbatim>\<open>*gl_namespace\<close>: what
  \<^verbatim>\<open>json.Unmarshal\<close> writes to is that pointer.
\<close>

definition no_encode :: "unit \<Rightarrow> string" where
  "no_encode u = []"

definition Unmarshal_gl_namespace ::
  "string \<Rightarrow> gl_namespace option \<Rightarrow> gl_namespace option \<times> error option" where
  "Unmarshal_gl_namespace = Unmarshal_ptr_ptr gl_namespace_field new_gl_namespace"

text \<open>
  \<^verbatim>\<open>func (c *wrapper) findNamespaceByName(ctx, name)\<close> (lines 109-118). It returns the
  pointer \<^verbatim>\<open>out\<close> and the error of \<^verbatim>\<open>do\<close>; the client is returned with them, as
  \<^verbatim>\<open>do\<close> sets its rate.
\<close>

definition findNamespaceByName ::
  "(Request \<Rightarrow> error + Response) \<Rightarrow> Client \<Rightarrow> string \<Rightarrow> Client \<times> gl_namespace option \<times> error option" where
  "findNamespaceByName exchange c name =
     (let in' = Values_Set [] ''search'' name;
          path = ''api/v4/namespaces?'' @ Values_Encode in';
          out = Some new_gl_namespace;
          r = do exchange no_encode Unmarshal_gl_namespace c ''GET'' path None (Some out)
      in (ret_client r, (case ret_out r of None \<Rightarrow> out | Some p \<Rightarrow> p), ret_err r))"

text \<open>
  Values the statements below are about: a response as the exchange hands it over (id and
  rate not yet filled in), a client that has seen no exchange, the rate that the three
  rate-limit headers of a response give, and the request of a namespace lookup.
\<close>

definition zero_Rate :: Rate where
  "zero_Rate = \<lparr>Limit = 0, Remaining = 0, Reset = 0\<rparr>"

definition received :: "int \<Rightarrow> Header \<Rightarrow> string \<Rightarrow> Response" where
  "received status header body =
     \<lparr>Response.ID = [], Status = status, Header = header, Body = body, Rate = zero_Rate\<rparr>"

definition new_Client :: Client where
  "new_Client = \<lparr>rate = zero_Rate\<rparr>"

definition header_rate :: "Header \<Rightarrow> Rate" where
  "header_rate h =
     \<lparr>Limit = fst (Atoi (Header_Get h ''RateLimit-Limit'')),
      Remaining = fst (Atoi (Header_Get h ''RateLimit-Remaining'')),
      Reset = fst (ParseInt (Header_Get h ''RateLimit-Reset''))\<rparr>"

definition namespace_request :: "string \<Rightarrow> Request" where
  "namespace_request name =
     \<lparr>Method = ''GET'', Path = ''api/v4/namespaces?search='' @ QueryEscape name, Header = [],
      Body = None\<rparr>"

subsection \<open>The rate-limit headers as the specification reads them\<close>

text \<open>
  The value that the specification gives to the text of a rate-limit header, written from
  its words and not from the parsers above; \<open>header_rate\<close> is compared with it below. The
  text is an optional sign (\<^verbatim>\<open>+\<close> or \<^verbatim>\<open>-\<close>) and what follows it. A header with nothing
  after the sign (a missing header has the empty text) has the value 0. When only decimal
  digits follow the sign, the value is the number they write with that sign, replaced by
  the nearest bound of the signed 64-bit range when it lies outside that range. When a
  character that is no digit follows the sign, the value is 0, unless the digits in front
  of the first such character already write a number above \<open>2\<^sup>6\<^sup>4 - 1\<close>: then it is the
  bound of the range on the side of the sign.
\<close>

definition digit_step :: "int \<Rightarrow> char \<Rightarrow> int" where
  "digit_step n c = n * 10 + (of_char c - 48)"

definition decimal_value :: "string \<Rightarrow> int" where
  "decimal_value ds = foldl digit_step 0 ds"

definition after_sign :: "string \<Rightarrow> string" where
  "after_sign s = (if take 1 s = ''+'' \<or> take 1 s = ''-'' then drop 1 s else s)"

definition spec_header_value :: "string \<Rightarrow> int" where
  "spec_header_value s =
     (if after_sign s = [] then 0
      else if list_all isDigit (after_sign s) then
        (if take 1 s = ''-'' then max (- maxInt64 - 1) (- decimal_value (after_sign s))
         else min maxInt64 (decimal_value (after_sign s)))
      else if decimal_value (takeWhile isDigit (after_sign s)) > maxUint64 then
        (if take 1 s = ''-'' then - maxInt64 - 1 else maxInt64)
      else 0)"

definition spec_rate :: "Header \<Rightarrow> Rate" where
  "spec_rate h =
     \<lparr>Limit = spec_header_value (Header_Get h ''RateLimit-Limit''),
      Remaining = spec_header_value (Header_Get h ''RateLimit-Remaining''),
      Reset = spec_header_value (Header_Get h ''RateLimit-Reset'')\<rparr>"

section \<open>The webhook model and its codec (scm/webhook.go)\<close>

text \<open>
  The types \<^verbatim>\<open>Repository\<close>, \<^verbatim>\<open>User\<close>, \<^verbatim>\<open>Commit\<close>, \<^verbatim>\<open>Reference\<close>, \<^verbatim>\<open>Action\<close>,
  \<^verbatim>\<open>Issue\<close>, \<^verbatim>\<open>Comment\<close>, \<^verbatim>\<open>PullRequest\<close> and \<^verbatim>\<open>Review\<close> of package \<^verbatim>\<open>scm\<close> are
  declared in files that are not among the sources, and \<^verbatim>\<open>DeployHook.Data\<close> is an
  \<^verbatim>\<open>interface{}\<close>. A value of any of them is a value of the type variable \<open>'x\<close>, and
  every encoder takes as its first argument \<open>marshal\<close>, what \<^verbatim>\<open>json.Marshal\<close> makes of
  such a value: its JSON value, or \<open>None\<close> when it cannot be encoded. A slice is a list
  or nil (\<open>None\<close>). The types below are declared in lines 27-158.
\<close>

record Label =
  URL :: string
  Name :: string
  Description :: string
  Color :: string

record PushCommit =
  ID :: string
  Message :: string
  Added :: "string list option"
  Removed :: "string list option"
  Modified :: "string list option"

record 'x PushHook =
  Ref :: string
  BaseRef :: string
  Repo :: 'x
  Before :: string
  After :: string
  Created :: bool
  Deleted :: bool
  Forced :: bool
  Compare :: string
  Commits :: "PushCommit list option"
  Commit :: 'x
  Sender :: 'x
  GUID :: string

record 'x BranchHook =
  Ref :: 'x
  Repo :: 'x
  Action :: 'x
  Sender :: 'x

record 'x TagHook =
  Ref :: 'x
  Repo :: 'x
  Action :: 'x
  Sender :: 'x

record 'x IssueHook =
  Action :: 'x
  Repo :: 'x
  Issue :: 'x
  Sender :: 'x

record 'x IssueCommentHook =
  Action :: 'x
  Repo :: 'x
  Issue :: 'x
  Comment :: 'x
  Sender :: 'x

record PullRequestHookBranchFrom =
  From :: string

record 'x PullRequestHookBranch =
  Ref :: PullRequestHookBranchFrom
  Sha :: PullRequestHookBranchFrom
  Repo :: 'x

record 'x PullRequestHookChanges =
  Base :: "'x PullRequestHookBranch"

record 'x PullRequestHook =
  Action :: 'x
  Repo :: 'x
  Label :: Label
  PullRequest :: 'x
  Sender :: 'x
  Changes :: "'x PullRequestHookChanges"
  GUID :: string

record 'x PullRequestCommentHook =
  Action :: 'x
  Repo :: 'x
  PullRequest :: 'x
  Comment :: 'x
  Sender :: 'x

record 'x ReviewCommentHook =
  Action :: 'x
  Repo :: 'x
  PullRequest :: 'x
  Review :: 'x

record 'x DeployHook =
  Data :: 'x
  Desc :: string
  Ref :: 'x
  Repo :: 'x
  Sender :: 'x
  Target :: string
  TargetURL :: string
  Task :: string

text \<open>
  A value of the interface \<^verbatim>\<open>Webhook\<close>: a pointer to one of the nine hook types; the
  pointer can be nil (\<open>None\<close>) inside a non-nil interface value.
\<close>

datatype 'x Webhook =
    PushHookPtr "'x PushHook option"
  | BranchHookPtr "'x BranchHook option"
  | DeployHookPtr "'x DeployHook option"
  | TagHookPtr "'x TagHook option"
  | IssueHookPtr "'x IssueHook option"
  | IssueCommentHookPtr "'x IssueCommentHook option"
  | PullRequestHookPtr "'x PullRequestHook option"
  | PullRequestCommentHookPtr "'x PullRequestCommentHook option"
  | ReviewCommentHookPtr "'x ReviewCommentHook option"

record 'x WebhookUnmarshaler =
  Type :: string
  Webhook :: "'x Webhook option"

subsection \<open>Encoding\<close>

text \<open>
  \<^verbatim>\<open>hook := make(map[string]interface{})\<close>: each value is kept as what \<^verbatim>\<open>json.Marshal\<close>
  makes of it. \<^verbatim>\<open>json.Marshal\<close> of a map writes the keys in ascending byte order and
  fails when a value cannot be encoded.
\<close>

type_synonym hookmap = "(string \<times> json option) list"

definition hook_set :: "string \<Rightarrow> json option \<Rightarrow> hookmap \<Rightarrow> hookmap" where
  "hook_set k v hook = AList.update k v hook"

definition Marshal_map :: "hookmap \<Rightarrow> error + string" where
  "Marshal_map hook =
     (let entries = sort_key fst hook
      in case those (map snd entries) of
           None \<Rightarrow> Inl UnsupportedValueError
         | Some vs \<Rightarrow> Inr (render (JObject (zip (map fst entries) vs))))"

definition Marshal_string :: "string \<Rightarrow> json option" where
  "Marshal_string s = Some (JString s)"

definition Marshal_bool :: "bool \<Rightarrow> json option" where
  "Marshal_bool b = Some (JBool b)"

definition Marshal_strings :: "string list option \<Rightarrow> json" where
  "Marshal_strings xs = (case xs of None \<Rightarrow> JNull | Some ys \<Rightarrow> JArray (map JString ys))"

definition Marshal_PushCommit :: "PushCommit \<Rightarrow> json" where
  "Marshal_PushCommit c =
     JObject
       [(''ID'', JString (PushCommit.ID c)),
        (''Message'', JString (PushCommit.Message c)),
        (''Added'', Marshal_strings (Added c)),
        (''Removed'', Marshal_strings (Removed c)),
        (''Modified'', Marshal_strings (Modified c))]"

definition Marshal_PushCommits :: "PushCommit list option \<Rightarrow> json option" where
  "Marshal_PushCommits cs =
     (case cs of None \<Rightarrow> Some JNull | Some ds \<Rightarrow> Some (JArray (map Marshal_PushCommit ds)))"

definition Marshal_Label :: "Label \<Rightarrow> json option" where
  "Marshal_Label l =
     Some (JObject
       [(''URL'', JString (URL l)),
        (''Name'', JString (Label.Name l)),
        (''Description'', JString (Description l)),
        (''Color'', JString (Color l))])"

definition Marshal_From :: "PullRequestHookBranchFrom \<Rightarrow> json" where
  "Marshal_From f = JObject [(''From'', JString (From f))]"

definition Marshal_Changes :: "('x \<Rightarrow> json option) \<Rightarrow> 'x PullRequestHookChanges \<Rightarrow> json option" where
  "Marshal_Changes marshal ch =
     (case marshal (PullRequestHookBranch.Repo (Base ch)) of
        None \<Rightarrow> None
      | Some repo \<Rightarrow>
          Some (JObject
            [(''Base'', JObject
               [(''Ref'', Marshal_From (PullRequestHookBranch.Ref (Base ch))),
                (''Sha'', Marshal_From (Sha (Base ch))),
                (''Repo'', repo)])]))"

text \<open>The nine \<^verbatim>\<open>MarshalJSON\<close> methods (lines 187-319), statement by statement.\<close>

definition PushHook_MarshalJSON :: "('x \<Rightarrow> json option) \<Rightarrow> 'x PushHook \<Rightarrow> error + string" where
  "PushHook_MarshalJSON marshal h =
     (let hook = [];
          hook = hook_set ''type'' (Marshal_string ''pushHook'') hook;
          hook = hook_set ''ref'' (Marshal_string (PushHook.Ref h)) hook;
          hook = hook_set ''baseRef'' (Marshal_string (BaseRef h)) hook;
          hook = hook_set ''repo'' (marshal (PushHook.Repo h)) hook;
          hook = hook_set ''before'' (Marshal_string (Before h)) hook;
          hook = hook_set ''after'' (Marshal_string (After h)) hook;
          hook = hook_set ''created'' (Marshal_bool (Created h)) hook;
          hook = hook_set ''deleted'' (Marshal_bool (Deleted h)) hook;
          hook = hook_set ''forced'' (Marshal_bool (Forced h)) hook;
          hook = hook_set ''compare'' (Marshal_string (Compare h)) hook;
          hook = hook_set ''commits'' (Marshal_PushCommits (Commits h)) hook;
          hook = hook_set ''commit'' (marshal (Commit h)) hook;
          hook = hook_set ''sender'' (marshal (PushHook.Sender h)) hook;
          hook = hook_set ''guid'' (Marshal_string (PushHook.GUID h)) hook
      in Marshal_map hook)"

definition BranchHook_MarshalJSON :: "('x \<Rightarrow> json option) \<Rightarrow> 'x BranchHook \<Rightarrow> error + string" where
  "BranchHook_MarshalJSON marshal h =
     (let hook = [];
          hook = hook_set ''type'' (Marshal_string ''branchHook'') hook;
          hook = hook_set ''ref'' (marshal (BranchHook.Ref h)) hook;
          hook = hook_set ''repo'' (marshal (BranchHook.Repo h)) hook;
          hook = hook_set ''action'' (marshal (BranchHook.Action h)) hook;
          hook = hook_set ''sender'' (marshal (BranchHook.Sender h)) hook
      in Marshal_map hook)"

definition DeployHook_MarshalJSON :: "('x \<Rightarrow> json option) \<Rightarrow> 'x DeployHook \<Rightarrow> error + string" where
  "DeployHook_MarshalJSON marshal h =
     (let hook = [];
          hook = hook_set ''type'' (Marshal_string ''deployHook'') hook;
          hook = hook_set ''data'' (marshal (Data h)) hook;
          hook = hook_set ''desc'' (Marshal_string (Desc h)) hook;
          hook = hook_set ''ref'' (marshal (DeployHook.Ref h)) hook;
          hook = hook_set ''repo'' (marshal (DeployHook.Repo h)) hook;
          hook = hook_set ''sender'' (marshal (DeployHook.Sender h)) hook;
          hook = hook_set ''target'' (Marshal_string (Target h)) hook;
          hook = hook_set ''targetUrl'' (Marshal_string (TargetURL h)) hook;
          hook = hook_set ''task'' (Marshal_string (Task h)) hook
      in Marshal_map hook)"

definition TagHook_MarshalJSON :: "('x \<Rightarrow> json option) \<Rightarrow> 'x TagHook \<Rightarrow> error + string" where
  "TagHook_MarshalJSON marshal h =
     (let hook = [];
          hook = hook_set ''type'' (Marshal_string ''tagHook'') hook;
          hook = hook_set ''ref'' (marshal (TagHook.Ref h)) hook;
          hook = hook_set ''repo'' (marshal (TagHook.Repo h)) hook;
          hook = hook_set ''action'' (marshal (TagHook.Action h)) hook;
          hook = hook_set ''sender'' (marshal (TagHook.Sender h)) hook
      in Marshal_map hook)"

definition IssueHook_MarshalJSON :: "('x \<Rightarrow> json option) \<Rightarrow> 'x IssueHook \<Rightarrow> error + string" where
  "IssueHook_MarshalJSON marshal h =
     (let hook = [];
          hook = hook_set ''type'' (Marshal_string ''issueHook'') hook;
          hook = hook_set ''action'' (marshal (IssueHook.Action h)) hook;
          hook = hook_set ''repo'' (marshal (IssueHook.Repo h)) hook;
          hook = hook_set ''issue'' (marshal (IssueHook.Issue h)) hook;
          hook = hook_set ''sender'' (marshal (IssueHook.Sender h)) hook
      in Marshal_map hook)"

definition IssueCommentHook_MarshalJSON ::
  "('x \<Rightarrow> json option) \<Rightarrow> 'x IssueCommentHook \<Rightarrow> error + string" where
  "IssueCommentHook_MarshalJSON marshal h =
     (let hook = [];
          hook = hook_set ''type'' (Marshal_string ''issueCommentHook'') hook;
          hook = hook_set ''action'' (marshal (IssueCommentHook.Action h)) hook;
          hook = hook_set ''repo'' (marshal (IssueCommentHook.Repo h)) hook;
          hook = hook_set ''issue'' (marshal (IssueCommentHook.Issue h)) hook;
          hook = hook_set ''comment'' (marshal (IssueCommentHook.Comment h)) hook;
          hook = hook_set ''sender'' (marshal (IssueCommentHook.Sender h)) hook
      in Marshal_map hook)"

definition PullRequestHook_MarshalJSON ::
  "('x \<Rightarrow> json option) \<Rightarrow> 'x PullRequestHook \<Rightarrow> error + string" where
  "PullRequestHook_MarshalJSON marshal h =
     (let hook = [];
          hook = hook_set ''type'' (Marshal_string ''pullRequestHook'') hook;
          hook = hook_set ''action'' (marshal (PullRequestHook.Action h)) hook;
          hook = hook_set ''repo'' (marshal (PullRequestHook.Repo h)) hook;
          hook = hook_set ''label'' (Marshal_Label (Label h)) hook;
          hook = hook_set ''pullRequest'' (marshal (PullRequestHook.PullRequest h)) hook;
          hook = hook_set ''sender'' (marshal (PullRequestHook.Sender h)) hook;
          hook = hook_set ''changes'' (Marshal_Changes marshal (Changes h)) hook;
          hook = hook_set ''guid'' (Marshal_string (PullRequestHook.GUID h)) hook
      in Marshal_map hook)"

definition PullRequestCommentHook_MarshalJSON ::
  "('x \<Rightarrow> json option) \<Rightarrow> 'x PullRequestCommentHook \<Rightarrow> error + string" where
  "PullRequestCommentHook_MarshalJSON marshal h =
     (let hook = [];
          hook = hook_set ''type'' (Marshal_string ''pullRequestCommentHook'') hook;
          hook = hook_set ''action'' (marshal (PullRequestCommentHook.Action h)) hook;
          hook = hook_set ''repo'' (marshal (PullRequestCommentHook.Repo h)) hook;
          hook = hook_set ''pullRequest'' (marshal (PullRequestCommentHook.PullRequest h)) hook;
          hook = hook_set ''comment'' (marshal (PullRequestCommentHook.Comment h)) hook;
          hook = hook_set ''sender'' (marshal (PullRequestCommentHook.Sender h)) hook
      in Marshal_map hook)"

definition ReviewCommentHook_MarshalJSON ::
  "('x \<Rightarrow> json option) \<Rightarrow> 'x ReviewCommentHook \<Rightarrow> error + string" where
  "ReviewCommentHook_MarshalJSON marshal h =
     (let hook = [];
          hook = hook_set ''type'' (Marshal_string ''reviewCommentHook'') hook;
          hook = hook_set ''action'' (marshal (ReviewCommentHook.Action h)) hook;
          hook = hook_set ''repo'' (marshal (ReviewCommentHook.Repo h)) hook;
          hook = hook_set ''pullRequest'' (marshal (ReviewCommentHook.PullRequest h)) hook;
          hook = hook_set ''review'' (marshal (Review h)) hook
      in Marshal_map hook)"

subsection \<open>Decoding\<close>

text \<open>
  \<^verbatim>\<open>json.Unmarshal(b, &objMap)\<close> with \<^verbatim>\<open>objMap\<close> a nil
  \<^verbatim>\<open>map[string]*json.RawMessage\<close>: an object fills the map (a raw message is kept as the
  value it holds, \<^verbatim>\<open>null\<close> as the nil pointer), \<^verbatim>\<open>null\<close> leaves the map nil, any other
  value is a type error.
\<close>

definition Unmarshal_map_RawMessage :: "string \<Rightarrow> (string \<rightharpoonup> json option) \<times> error option" where
  "Unmarshal_map_RawMessage b =
     (case json_parse b of
        None \<Rightarrow> (Map.empty, Some SyntaxError)
      | Some (JObject kvs) \<Rightarrow>
          (map_of (rev (map (\<lambda>kv. (fst kv, if snd kv = JNull then None else Some (snd kv))) kvs)), None)
      | Some JNull \<Rightarrow> (Map.empty, None)
      | Some _ \<Rightarrow> (Map.empty, Some UnmarshalTypeError))"

text \<open>
  \<^verbatim>\<open>json.Unmarshal(raw, &webhookMap)\<close> with \<^verbatim>\<open>webhookMap\<close> a nil \<^verbatim>\<open>map[string]string\<close>:
  every key of an object is entered, with the empty string when its value is no string,
  and a value that is neither a string nor \<^verbatim>\<open>null\<close> is a type error.
\<close>

fun is_string_or_null :: "json \<Rightarrow> bool" where
  "is_string_or_null (JString s) = True"
| "is_string_or_null JNull = True"
| "is_string_or_null _ = False"

fun string_or_empty :: "json \<Rightarrow> string" where
  "string_or_empty (JString s) = s"
| "string_or_empty _ = []"

definition Unmarshal_map_string :: "string \<Rightarrow> (string \<rightharpoonup> string) \<times> error option" where
  "Unmarshal_map_string b =
     (case json_parse b of
        None \<Rightarrow> (Map.empty, Some SyntaxError)
      | Some (JObject kvs) \<Rightarrow>
          (map_of (rev (map (\<lambda>kv. (fst kv, string_or_empty (snd kv))) kvs)),
           if list_all (\<lambda>kv. is_string_or_null (snd kv)) kvs then None else Some UnmarshalTypeError)
      | Some JNull \<Rightarrow> (Map.empty, None)
      | Some _ \<Rightarrow> (Map.empty, Some UnmarshalTypeError))"

text \<open>\<^verbatim>\<open>m[key]\<close> on a \<^verbatim>\<open>map[string]string\<close>: the empty string for an absent key.\<close>

definition index :: "(string \<rightharpoonup> string) \<Rightarrow> string \<Rightarrow> string" where
  "index m key = (case m key of None \<Rightarrow> [] | Some v \<Rightarrow> v)"

text \<open>
  \<^verbatim>\<open>json.Unmarshal(raw, h)\<close> with \<^verbatim>\<open>h\<close> a nil pointer: after the syntax check it fails
  with an \<^verbatim>\<open>InvalidUnmarshalError\<close>.
\<close>

definition Unmarshal_nil :: "string \<Rightarrow> error option" where
  "Unmarshal_nil raw =
     (case json_parse raw of
        None \<Rightarrow> Some SyntaxError
      | Some v \<Rightarrow> Some InvalidUnmarshalError)"

text \<open>
  One branch of the dispatch (for instance lines 338-343): \<^verbatim>\<open>var h *PushHook\<close> is nil,
  \<^verbatim>\<open>*rawMessage\<close> is dereferenced, and \<^verbatim>\<open>wu.Webhook = h\<close> follows when no error came back.
\<close>

definition decode_branch ::
  "'x WebhookUnmarshaler \<Rightarrow> string option \<Rightarrow> 'x Webhook \<Rightarrow> ('x WebhookUnmarshaler \<times> error option) outcome" where
  "decode_branch wu rawMessage h =
     (case rawMessage of
        None \<Rightarrow> Panicked NilPointerDereference
      | Some raw \<Rightarrow>
          (case Unmarshal_nil raw of
             Some err \<Rightarrow> Returned (wu, Some err)
           | None \<Rightarrow> Returned (wu\<lparr>Webhook := Some h\<rparr>, None)))"

text \<open>
  Lines 330-419 of \<^verbatim>\<open>UnmarshalJSON\<close>, for any value of the local variable
  \<^verbatim>\<open>rawMessage\<close> (a \<^verbatim>\<open>*json.RawMessage\<close>; \<open>None\<close> is nil). The if-chain has no final
  \<^verbatim>\<open>else\<close>: a type that matches no branch falls through to \<^verbatim>\<open>return nil\<close>.
\<close>

definition dispatch ::
  "'x WebhookUnmarshaler \<Rightarrow> string option \<Rightarrow> ('x WebhookUnmarshaler \<times> error option) outcome" where
  "dispatch wu rawMessage =
     (case rawMessage of
        None \<Rightarrow> Panicked NilPointerDereference
      | Some raw \<Rightarrow>
          (case Unmarshal_map_string raw of
             (webhookMap, Some err) \<Rightarrow> Returned (wu, Some err)
           | (webhookMap, None) \<Rightarrow>
               if index webhookMap ''type'' = ''pushHook''
               then decode_branch wu rawMessage (PushHookPtr None)
               else if index webhookMap ''type'' = ''branchHook''
               then decode_branch wu rawMessage (BranchHookPtr None)
               else if index webhookMap ''type'' = ''deployHook''
               then decode_branch wu rawMessage (DeployHookPtr None)
               else if index webhookMap ''type'' = ''tagHook''
               then decode_branch wu rawMessage (TagHookPtr None)
               else if index webhookMap ''type'' = ''issueHook''
               then decode_branch wu rawMessage (IssueHookPtr None)
               else if index webhookMap ''type'' = ''issueCommentHook''
               then decode_branch wu rawMessage (IssueHookPtr None)
               else if index webhookMap ''type'' = ''pullRequestHook''
               then decode_branch wu rawMessage (IssueHookPtr None)
               else if index webhookMap ''type'' = ''pullRequestCommentHook''
               then decode_branch wu rawMessage (IssueHookPtr None)
               else if index webhookMap ''type'' = ''reviewCommentHook''
               then decode_branch wu rawMessage (IssueHookPtr None)
               else Returned (wu, None)))"

text \<open>
  \<^verbatim>\<open>func (wu *WebhookUnmarshaler) UnmarshalJSON(b []byte) error\<close> (lines 322-420):
  \<^verbatim>\<open>objMap\<close> is filled and never read, and \<^verbatim>\<open>var rawMessage *json.RawMessage\<close> is
  declared without a value, so it is nil where line 331 dereferences it.
\<close>

definition UnmarshalJSON ::
  "'x WebhookUnmarshaler \<Rightarrow> string \<Rightarrow> ('x WebhookUnmarshaler \<times> error option) outcome" where
  "UnmarshalJSON wu b =
     (case Unmarshal_map_RawMessage b of
        (objMap, Some err) \<Rightarrow> Returned (wu, Some err)
      | (objMap, None) \<Rightarrow> (let rawMessage = None in dispatch wu rawMessage))"

subsection \<open>Encoding and decoding through the interface\<close>

text \<open>
  A method with a pointer receiver that reads the fields of its receiver, called on a
  pointer: on nil the first field access panics.
\<close>

definition on_pointer :: "('h \<Rightarrow> 'r) \<Rightarrow> 'h option \<Rightarrow> 'r outcome" where
  "on_pointer method p =
     (case p of
        None \<Rightarrow> Panicked NilPointerDereference
      | Some h \<Rightarrow> Returned (method h))"

text \<open>
  \<^verbatim>\<open>MarshalJSON\<close> called on a \<^verbatim>\<open>Webhook\<close>: the method of its dynamic type. This is the
  spec's \<^verbatim>\<open>encode\<close>.
\<close>

fun MarshalJSON :: "('x \<Rightarrow> json option) \<Rightarrow> 'x Webhook \<Rightarrow> (error + string) outcome" where
  "MarshalJSON marshal (PushHookPtr p) = on_pointer (PushHook_MarshalJSON marshal) p"
| "MarshalJSON marshal (BranchHookPtr p) = on_pointer (BranchHook_MarshalJSON marshal) p"
| "MarshalJSON marshal (DeployHookPtr p) = on_pointer (DeployHook_MarshalJSON marshal) p"
| "MarshalJSON marshal (TagHookPtr p) = on_pointer (TagHook_MarshalJSON marshal) p"
| "MarshalJSON marshal (IssueHookPtr p) = on_pointer (IssueHook_MarshalJSON marshal) p"
| "MarshalJSON marshal (IssueCommentHookPtr p) = on_pointer (IssueCommentHook_MarshalJSON marshal) p"
| "MarshalJSON marshal (PullRequestHookPtr p) = on_pointer (PullRequestHook_MarshalJSON marshal) p"
| "MarshalJSON marshal (PullRequestCommentHookPtr p) = on_pointer (PullRequestCommentHook_MarshalJSON marshal) p"
| "MarshalJSON marshal (ReviewCommentHookPtr p) = on_pointer (ReviewCommentHook_MarshalJSON marshal) p"

fun nil_pointer :: "'x Webhook \<Rightarrow> bool" where
  "nil_pointer (PushHookPtr p) = (p = None)"
| "nil_pointer (BranchHookPtr p) = (p = None)"
| "nil_pointer (DeployHookPtr p) = (p = None)"
| "nil_pointer (TagHookPtr p) = (p = None)"
| "nil_pointer (IssueHookPtr p) = (p = None)"
| "nil_pointer (IssueCommentHookPtr p) = (p = None)"
| "nil_pointer (PullRequestHookPtr p) = (p = None)"
| "nil_pointer (PullRequestCommentHookPtr p) = (p = None)"
| "nil_pointer (ReviewCommentHookPtr p) = (p = None)"

text \<open>
  The discriminator table of the spec (section 3), by variant: the literal the spec
  assigns to each of the nine variants, to compare the encoders with.
\<close>

fun spec_discriminator :: "'x Webhook \<Rightarrow> string" where
  "spec_discriminator (PushHookPtr p) = ''pushHook''"
| "spec_discriminator (BranchHookPtr p) = ''branchHook''"
| "spec_discriminator (DeployHookPtr p) = ''deployHook''"
| "spec_discriminator (TagHookPtr p) = ''tagHook''"
| "spec_discriminator (IssueHookPtr p) = ''issueHook''"
| "spec_discriminator (IssueCommentHookPtr p) = ''issueCommentHook''"
| "spec_discriminator (PullRequestHookPtr p) = ''pullRequestHook''"
| "spec_discriminator (PullRequestCommentHookPtr p) = ''pullRequestCommentHook''"
| "spec_discriminator (ReviewCommentHookPtr p) = ''reviewCommentHook''"

text \<open>
  Values the statements below are about: a \<^verbatim>\<open>WebhookUnmarshaler\<close> before decoding, and
  two hooks whose values of the types declared elsewhere are given by their JSON values
  (so that \<^verbatim>\<open>json.Marshal\<close> of such a value is \<open>Some\<close>).
\<close>

definition new_WebhookUnmarshaler :: "'x WebhookUnmarshaler" where
  "new_WebhookUnmarshaler = \<lparr>Type = [], Webhook = None\<rparr>"

definition example_BranchHook :: "json BranchHook" where
  "example_BranchHook =
     \<lparr>BranchHook.Ref = JObject [(''Name'', JString ''main'')],
      Repo = JObject [(''Name'', JString ''app'')],
      Action = JString ''create'',
      Sender = JObject [(''Login'', JString ''kim'')]\<rparr>"

definition example_IssueHook :: "json IssueHook" where
  "example_IssueHook =
     \<lparr>IssueHook.Action = JString ''opened'',
      Repo = JObject [(''Name'', JString ''app'')],
      Issue = JObject [(''Number'', JNumber ''7'')],
      Sender = JObject [(''Login'', JString ''kim'')]\<rparr>"


section \<open>Properties of the request executor\<close>

lemma do_transport_error:
  "exchange (new_request encode method path in') = Inl e \<Longrightarrow>
   do exchange encode unmarshal c method path in' out =
     \<lparr>ret_client = c, ret_res = None, ret_err = Some e, ret_out = out\<rparr>"
  by (simp add: do_def)

lemma do_error_status:
  "exchange (new_request encode method path in') = Inr res0 \<Longrightarrow> Status res0 > 300 \<Longrightarrow>
   do exchange encode unmarshal c method path in' out =
     \<lparr>ret_client = SetRate c (Rate (read_headers res0)), ret_res = Some (read_headers res0),
      ret_err = Some (GitlabError (fst (Unmarshal_ptr_ptr Error_field new_Error (Response.Body res0) (Some new_Error)))),
      ret_out = out\<rparr>"
  by (simp add: do_def Let_def read_headers_def)

lemma Status_read_headers [simp]: "Status (read_headers res0) = Status res0"
  by (simp add: read_headers_def Let_def)

lemma Body_read_headers [simp]: "Response.Body (read_headers res0) = Response.Body res0"
  by (simp add: read_headers_def Let_def)

lemma Header_read_headers [simp]: "Response.Header (read_headers res0) = Response.Header res0"
  by (simp add: read_headers_def Let_def)

lemma do_success_no_out:
  "exchange (new_request encode method path in') = Inr res0 \<Longrightarrow> Status res0 \<le> 300 \<Longrightarrow>
   do exchange encode unmarshal c method path in' None =
     \<lparr>ret_client = SetRate c (Rate (read_headers res0)), ret_res = Some (read_headers res0),
      ret_err = None, ret_out = None\<rparr>"
  by (simp add: do_def Let_def)

lemma do_success_out:
  "exchange (new_request encode method path in') = Inr res0 \<Longrightarrow> Status res0 \<le> 300 \<Longrightarrow>
   do exchange encode unmarshal c method path in' (Some v) =
     \<lparr>ret_client = SetRate c (Rate (read_headers res0)), ret_res = Some (read_headers res0),
      ret_err = snd (unmarshal (Response.Body res0) v), ret_out = Some (fst (unmarshal (Response.Body res0) v))\<rparr>"
  by (simp add: do_def Let_def split: prod.splits)


lemma slice_short: "length s < 2 \<Longrightarrow> slice s 1 (int (length s) - 1) = Panicked SliceBoundsOutOfRange"
  by (simp add: slice_def)


lemma gl_short_body:
  "exchange (new_request encode method path in') = Inr res0 \<Longrightarrow> Status res0 \<le> 300 \<Longrightarrow>
   length (Response.Body res0) < 2 \<Longrightarrow>
   do_gl_namespace exchange encode unmarshal c method path in' (Some v) = Panicked SliceBoundsOutOfRange"
  by (simp add: do_gl_namespace_def Let_def slice_short)

lemma gl_transport_error:
  "exchange (new_request encode method path in') = Inl e \<Longrightarrow>
   do_gl_namespace exchange encode unmarshal c method path in' out =
     Returned \<lparr>ret_client = c, ret_res = None, ret_err = Some e, ret_out = out\<rparr>"
  by (simp add: do_gl_namespace_def)

lemma gl_error_status:
  "exchange (new_request encode method path in') = Inr res0 \<Longrightarrow> Status res0 > 300 \<Longrightarrow>
   do_gl_namespace exchange encode unmarshal c method path in' out =
     Returned \<lparr>ret_client = SetRate c (Rate (read_headers res0)), ret_res = Some (read_headers res0),
      ret_err = Some (GitlabError (Some (fst (Decode_ptr Error_field (Response.Body res0) new_Error)))),
      ret_out = out\<rparr>"
  by (simp add: do_gl_namespace_def Let_def)

lemma gl_success_no_out:
  "exchange (new_request encode method path in') = Inr res0 \<Longrightarrow> Status res0 \<le> 300 \<Longrightarrow>
   do_gl_namespace exchange encode unmarshal c method path in' None =
     Returned \<lparr>ret_client = SetRate c (Rate (read_headers res0)), ret_res = Some (read_headers res0),
      ret_err = None, ret_out = None\<rparr>"
  by (simp add: do_gl_namespace_def Let_def)

lemma Rate_read_headers: "Rate (read_headers res0) = header_rate (Response.Header res0)"
  by (simp add: read_headers_def Let_def header_rate_def)

lemma ID_read_headers: "Response.ID (read_headers res0) = Header_Get (Response.Header res0) ''X-Request-Id''"
  by (simp add: read_headers_def Let_def)

lemma ParseUint_loop_syntax: "snd (ParseUint_loop s n) = Some ErrSyntax \<Longrightarrow> fst (ParseUint_loop s n) = 0"
  by (induction s n rule: ParseUint_loop.induct) (auto split: if_splits)

lemma ParseInt_syntax: "snd (ParseInt s) = Some ErrSyntax \<Longrightarrow> fst (ParseInt s) = 0"
  by (auto simp: ParseInt_def Let_def split: list.splits prod.splits option.splits NumError.splits if_splits)

lemma ParseInt_range: "snd (ParseInt s) = Some ErrRange \<Longrightarrow> fst (ParseInt s) = maxInt64 \<or> fst (ParseInt s) = - maxInt64 - 1"
  by (auto simp: ParseInt_def Let_def split: list.splits prod.splits option.splits NumError.splits if_splits)

lemma ParseInt_empty: "ParseInt [] = (0, Some ErrSyntax)"
  by (simp add: ParseInt_def)

lemma Header_Get_missing: "map_of h (CanonicalMIMEHeaderKey key) = None \<Longrightarrow> Header_Get h key = []"
  by (simp add: Header_Get_def)

text \<open>
  The parsers against the specification's reading of a header: \<^verbatim>\<open>ParseUint\<close> by induction on
  the text, then \<^verbatim>\<open>ParseInt\<close> and \<^verbatim>\<open>Atoi\<close> by the cases of the sign.
\<close>

lemma digit_range: "isDigit c \<Longrightarrow> 48 \<le> (of_char c :: int) \<and> (of_char c :: int) \<le> 57"
proof -
  assume "isDigit c"
  then have n: "(48::nat) \<le> of_char c \<and> of_char c \<le> (57::nat)"
    by (simp add: isDigit_def less_eq_char_def)
  have e: "(of_char c :: int) = int (of_char c)"
    by (simp add: of_nat_of_char)
  from n show ?thesis unfolding e by linarith
qed

lemma digit_step_ge: "isDigit c \<Longrightarrow> 0 \<le> n \<Longrightarrow> n \<le> digit_step n c"
  using digit_range [of c] by (simp add: digit_step_def)

lemma foldl_digit_step_ge:
  "list_all isDigit ds \<Longrightarrow> 0 \<le> n \<Longrightarrow> n \<le> foldl digit_step n ds"
proof (induction ds arbitrary: n)
  case Nil
  then show ?case by simp
next
  case (Cons c cs)
  then have c: "isDigit c" and cs: "list_all isDigit cs" by simp_all
  from digit_step_ge [OF c Cons.prems(2)] have 1: "n \<le> digit_step n c" .
  with Cons.prems(2) have "0 \<le> digit_step n c" by simp
  from Cons.IH [OF cs this] 1 show ?case by simp
qed

lemma list_all_takeWhile: "list_all P (takeWhile P xs)"
  by (induction xs) simp_all

lemma ParseUint_loop_shape:
  "0 \<le> n \<Longrightarrow> n \<le> maxUint64 \<Longrightarrow>
   ParseUint_loop s n =
     (if foldl digit_step n (takeWhile isDigit s) > maxUint64 then (maxUint64, Some ErrRange)
      else if takeWhile isDigit s \<noteq> s then (0, Some ErrSyntax)
      else (foldl digit_step n s, None))"
proof (induction s arbitrary: n)
  case Nil
  then show ?case by simp
next
  case (Cons c cs)
  show ?case
  proof (cases "isDigit c")
    case False
    with Cons.prems show ?thesis by simp
  next
    case True
    let ?n1 = "digit_step n c"
    have n1: "?n1 = n * 10 + (of_char c - 48)" by (simp add: digit_step_def)
    have ge: "?n1 \<le> foldl digit_step ?n1 (takeWhile isDigit cs)"
    proof -
      have "list_all isDigit (takeWhile isDigit cs)" by (rule list_all_takeWhile)
      moreover have "0 \<le> ?n1" using digit_step_ge [OF True Cons.prems(1)] Cons.prems(1) by simp
      ultimately show ?thesis by (rule foldl_digit_step_ge)
    qed
    show ?thesis
    proof (cases "n \<ge> maxUint64 div 10 + 1 \<or> ?n1 > maxUint64")
      case over: True
      have "?n1 > maxUint64"
      proof (cases "?n1 > maxUint64")
        case True then show ?thesis .
      next
        case False
        with over have "n \<ge> maxUint64 div 10 + 1" by simp
        with digit_range [OF True] show ?thesis by (simp add: n1 maxUint64_def)
      qed
      with ge have "foldl digit_step ?n1 (takeWhile isDigit cs) > maxUint64" by simp
      with over True show ?thesis by (auto simp: n1)
    next
      case False
      then have a: "\<not> n \<ge> maxUint64 div 10 + 1" and b: "?n1 \<le> maxUint64" by simp_all
      have "0 \<le> ?n1" using digit_step_ge [OF True Cons.prems(1)] Cons.prems(1) by simp
      from Cons.IH [OF this b] a b True show ?thesis by (simp add: n1)
    qed
  qed
qed

lemma takeWhile_all: "takeWhile P xs = xs \<longleftrightarrow> list_all P xs"
  by (induction xs) auto

lemma ParseUint_shape:
  "ParseUint s =
     (if s = [] then (0, Some ErrSyntax)
      else if decimal_value (takeWhile isDigit s) > maxUint64 then (maxUint64, Some ErrRange)
      else if \<not> list_all isDigit s then (0, Some ErrSyntax)
      else (decimal_value s, None))"
  using ParseUint_loop_shape [of 0 s]
  by (auto simp add: ParseUint_def decimal_value_def maxUint64_def takeWhile_all list_all_iff)

lemma ParseInt_after_sign:
  "ParseInt s =
     (if s = [] then (0, Some ErrSyntax)
      else case ParseUint (after_sign s) of
             (un, Some ErrSyntax) \<Rightarrow> (0, Some ErrSyntax)
           | (un, _) \<Rightarrow>
               if take 1 s \<noteq> ''-'' \<and> un \<ge> maxInt64 + 1 then (maxInt64, Some ErrRange)
               else if take 1 s = ''-'' \<and> un > maxInt64 + 1 then (- (maxInt64 + 1), Some ErrRange)
               else (if take 1 s = ''-'' then - un else un, None))"
  by (cases s) (auto simp: ParseInt_def after_sign_def Let_def split: prod.splits option.splits NumError.splits)

lemma decimal_value_nonneg: "list_all isDigit ds \<Longrightarrow> 0 \<le> decimal_value ds"
  using foldl_digit_step_ge [of ds 0] by (simp add: decimal_value_def)

lemma ParseUint_digits:
  "list_all isDigit s \<Longrightarrow> s \<noteq> [] \<Longrightarrow>
   ParseUint s = (if decimal_value s > maxUint64 then (maxUint64, Some ErrRange) else (decimal_value s, None))"
proof -
  assume a: "list_all isDigit s" and n: "s \<noteq> []"
  from a have tw: "takeWhile isDigit s = s" by (simp add: list_all_iff)
  from a n show ?thesis unfolding ParseUint_shape tw by simp
qed

lemma ParseUint_other:
  "\<not> list_all isDigit s \<Longrightarrow>
   ParseUint s = (if decimal_value (takeWhile isDigit s) > maxUint64 then (maxUint64, Some ErrRange)
                  else (0, Some ErrSyntax))"
proof -
  assume a: "\<not> list_all isDigit s"
  then have n: "s \<noteq> []" by auto
  from a n show ?thesis unfolding ParseUint_shape by simp
qed

lemma Atoi_spec: "fst (Atoi s) = spec_header_value s"
proof (cases "s = []")
  case True
  then show ?thesis by (simp add: Atoi_def ParseInt_def spec_header_value_def after_sign_def)
next
  case False
  show ?thesis
  proof (cases "after_sign s = []")
    case True
    with False show ?thesis
      by (simp add: Atoi_def ParseInt_after_sign ParseUint_def spec_header_value_def)
  next
    case body: False
    show ?thesis
    proof (cases "list_all isDigit (after_sign s)")
      case True
      from decimal_value_nonneg [OF True] have nn: "0 \<le> decimal_value (after_sign s)" .
      have sv: "spec_header_value s =
          (if take 1 s = ''-'' then max (- maxInt64 - 1) (- decimal_value (after_sign s))
           else min maxInt64 (decimal_value (after_sign s)))"
        using body True by (simp add: spec_header_value_def)
      show ?thesis
        unfolding sv Atoi_def ParseInt_after_sign ParseUint_digits [OF True body]
        using False nn by (simp add: maxInt64_def maxUint64_def)
    next
      case nd: False
      have sv: "spec_header_value s =
          (if decimal_value (takeWhile isDigit (after_sign s)) > maxUint64
           then (if take 1 s = ''-'' then - maxInt64 - 1 else maxInt64) else 0)"
        using body nd by (simp add: spec_header_value_def)
      show ?thesis
        unfolding sv Atoi_def ParseInt_after_sign ParseUint_other [OF nd]
        using False by (simp add: maxInt64_def maxUint64_def)
    qed
  qed
qed

lemma header_rate_spec: "header_rate h = spec_rate h"
  by (simp add: header_rate_def spec_rate_def Atoi_spec flip: Atoi_def)


lemma QueryEscape_search: "QueryEscape ''search'' = ''search''"
  by code_simp

lemma Values_Encode_search: "Values_Encode (Values_Set [] ''search'' name) = ''search='' @ QueryEscape name"
  by (simp add: Values_Encode_def Values_Set_def QueryEscape_search del: QueryEscape.simps)

lemma findNamespaceByName_do:
  "findNamespaceByName exchange c name =
     (let r = do exchange no_encode Unmarshal_gl_namespace c ''GET''
                (Path (namespace_request name)) None (Some (Some new_gl_namespace))
      in (ret_client r, (case ret_out r of None \<Rightarrow> Some new_gl_namespace | Some p \<Rightarrow> p), ret_err r))"
  by (simp add: findNamespaceByName_def Values_Encode_search Let_def namespace_request_def)

lemma new_request_namespace:
  "new_request no_encode ''GET'' (Path (namespace_request name)) None = namespace_request name"
  by (simp add: new_request_def namespace_request_def)

lemma find_transport:
  "exchange (namespace_request name) = Inl e \<Longrightarrow>
   findNamespaceByName exchange c name = (c, Some new_gl_namespace, Some e)"
  by (simp add: findNamespaceByName_do Let_def do_transport_error new_request_namespace)

lemma find_error_status:
  "exchange (namespace_request name) = Inr res \<Longrightarrow> 300 < Status res \<Longrightarrow>
   fst (snd (findNamespaceByName exchange c name)) = Some new_gl_namespace \<and>
   snd (snd (findNamespaceByName exchange c name)) \<noteq> None"
  by (simp add: findNamespaceByName_do Let_def do_error_status new_request_namespace)

lemma find_success:
  "exchange (namespace_request name) = Inr res \<Longrightarrow> Status res \<le> 300 \<Longrightarrow>
   findNamespaceByName exchange c name =
     (SetRate c (Rate (read_headers res)),
      fst (Unmarshal_gl_namespace (Response.Body res) (Some new_gl_namespace)),
      snd (Unmarshal_gl_namespace (Response.Body res) (Some new_gl_namespace)))"
  by (simp add: findNamespaceByName_do Let_def do_success_out new_request_namespace)

lemma Unmarshal_gl_syntax:
  "json_parse b = None \<Longrightarrow> Unmarshal_gl_namespace b p = (p, Some SyntaxError)"
  by (simp add: Unmarshal_gl_namespace_def Unmarshal_ptr_ptr_def)

lemma Unmarshal_gl_null:
  "json_parse b = Some JNull \<Longrightarrow> Unmarshal_gl_namespace b p = (None, None)"
  by (simp add: Unmarshal_gl_namespace_def Unmarshal_ptr_ptr_def)

lemma Unmarshal_gl_value:
  "json_parse b = Some v \<Longrightarrow> v \<noteq> JNull \<Longrightarrow> fst (Unmarshal_gl_namespace b p) \<noteq> None"
  by (cases v) (simp_all add: Unmarshal_gl_namespace_def Unmarshal_ptr_ptr_def split: prod.splits)

lemma Unmarshal_gl_not_object:
  "json_parse b = Some v \<Longrightarrow> v \<noteq> JNull \<Longrightarrow> (\<forall>kvs. v \<noteq> JObject kvs) \<Longrightarrow>
   Unmarshal_gl_namespace b (Some n) = (Some n, Some UnmarshalTypeError)"
  by (cases v) (simp_all add: Unmarshal_gl_namespace_def Unmarshal_ptr_ptr_def decode_struct_def)

text \<open>
  Claim C4: a response with status 300 or greater goes to the error decoder and comes
  back as an error beside the envelope, with no output decoding; below 300 with no output
  requested the envelope comes back with no error. Both executors test
  \<^verbatim>\<open>res.Status > 300\<close>, so a response with status exactly 300 takes the success
  path: with no output requested it is returned without an error, and with an output
  requested its body is decoded into the output (here the \<^verbatim>\<open>name\<close> of the body is
  stored).
\<close>

theorem C4_status_300_takes_success_path:
  \<open>do (\<lambda>req. Inr (received 300 [] ''{"message":"multiple choices","name":"x"}'')) no_encode
       Unmarshal_gl_namespace new_Client ''GET'' ''api/v4/user'' None None
     = \<lparr>ret_client = new_Client,
        ret_res = Some (received 300 [] ''{"message":"multiple choices","name":"x"}''),
        ret_err = None, ret_out = None\<rparr>
   \<and> do_gl_namespace (\<lambda>req. Inr (received 300 [] ''{"message":"multiple choices","name":"x"}''))
       no_encode Unmarshal_gl_namespace new_Client ''GET'' ''api/v4/user'' None None
     = Returned \<lparr>ret_client = new_Client,
        ret_res = Some (received 300 [] ''{"message":"multiple choices","name":"x"}''),
        ret_err = None, ret_out = None\<rparr>
   \<and> do (\<lambda>req. Inr (received 300 [] ''{"message":"multiple choices","name":"x"}'')) no_encode
       Unmarshal_gl_namespace new_Client ''GET'' ''api/v4/user'' None (Some (Some new_gl_namespace))
     = \<lparr>ret_client = new_Client,
        ret_res = Some (received 300 [] ''{"message":"multiple choices","name":"x"}''),
        ret_err = None,
        ret_out = Some (Some (new_gl_namespace\<lparr>gl_namespace.Name := ''x''\<rparr>))\<rparr>\<close>
  by code_simp

text \<open>
  Away from status 300 the executors do what the claim says: above 300 the error decoder
  runs and \<^verbatim>\<open>out\<close> is left alone (\<open>do_error_status\<close>, \<open>gl_error_status\<close>), and below
  300 with no output requested the envelope comes back with no error
  (\<open>do_success_no_out\<close>, \<open>gl_success_no_out\<close>).
\<close>

text \<open>
  Claim C5: the error returned for a non-success response displays the \<^verbatim>\<open>message\<close> of the
  JSON error body, and a body that is no valid JSON or has no \<^verbatim>\<open>message\<close> still gives an
  error value with an empty message. \<^verbatim>\<open>do\<close> decodes with
  \<^verbatim>\<open>json.Unmarshal([]byte(str_buf), &err_i)\<close>, the address of the pointer, so the body
  \<^verbatim>\<open>null\<close> (valid JSON without a \<^verbatim>\<open>message\<close>) sets \<^verbatim>\<open>err_i\<close> to nil: the error
  returned is a nil \<^verbatim>\<open>*Error\<close>, and its \<^verbatim>\<open>Error()\<close> method dereferences nil.
  \<^verbatim>\<open>do_gl_namespace\<close> decodes into the allocated \<^verbatim>\<open>Error\<close> and returns the empty
  message for the same response.
\<close>

theorem C5_null_error_body:
  \<open>do (\<lambda>req. Inr (received 404 [] ''null'')) no_encode Unmarshal_gl_namespace new_Client
       ''GET'' ''api/v4/user'' None None
     = \<lparr>ret_client = new_Client, ret_res = Some (received 404 [] ''null''),
        ret_err = Some (GitlabError None), ret_out = None\<rparr>
   \<and> Error_Error None = Panicked NilPointerDereference
   \<and> do_gl_namespace (\<lambda>req. Inr (received 404 [] ''null'')) no_encode Unmarshal_gl_namespace
       new_Client ''GET'' ''api/v4/user'' None None
     = Returned \<lparr>ret_client = new_Client, ret_res = Some (received 404 [] ''null''),
        ret_err = Some (GitlabError (Some \<lparr>Error.Message = []\<rparr>)), ret_out = None\<rparr>\<close>
  by code_simp

text \<open>The example of the claim holds: status 404 with the message \<^verbatim>\<open>not found\<close>.\<close>

lemma do_not_found_example:
  \<open>do (\<lambda>req. Inr (received 404 [] ''{"message":"not found"}'')) no_encode Unmarshal_gl_namespace
       new_Client ''GET'' ''api/v4/user'' None None
     = \<lparr>ret_client = new_Client, ret_res = Some (received 404 [] ''{"message":"not found"}''),
        ret_err = Some (GitlabError (Some \<lparr>Error.Message = ''not found''\<rparr>)), ret_out = None\<rparr>
   \<and> Error_Error (Some \<lparr>Error.Message = ''not found''\<rparr>) = Returned ''not found''\<close>
  by code_simp

text \<open>A body that is no valid JSON gives the error with the empty message.\<close>

lemma do_error_body_not_json:
  assumes "exchange (new_request encode method path in') = Inr res0"
      and "300 < Status res0"
      and "json_parse (Response.Body res0) = None"
  shows "ret_err (do exchange encode unmarshal c method path in' out) = Some (GitlabError (Some new_Error))"
  using assms by (simp add: do_error_status Unmarshal_ptr_ptr_def)

text \<open>
  A body that is a JSON object gives the error filled from its entries, with the empty
  message when no key is \<^verbatim>\<open>message\<close>; and every body but \<^verbatim>\<open>null\<close> gives a non-nil
  \<^verbatim>\<open>*Error\<close>.
\<close>

lemma fill_no_field:
  "list_all (\<lambda>kv. foldName (fst kv) \<noteq> foldName ''message'') kvs \<Longrightarrow> fill Error_field kvs e = (e, False)"
  by (induction kvs arbitrary: e) (auto simp: Error_field_def)

lemma do_error_object:
  assumes "exchange (new_request encode method path in') = Inr res0"
      and "300 < Status res0"
      and "json_parse (Response.Body res0) = Some (JObject kvs)"
  shows "ret_err (do exchange encode unmarshal c method path in' out)
           = Some (GitlabError (Some (fst (fill Error_field kvs new_Error))))"
  using assms
  by (simp add: do_error_status Unmarshal_ptr_ptr_def decode_struct_def split: prod.splits)

lemma do_error_no_message:
  assumes "exchange (new_request encode method path in') = Inr res0"
      and "300 < Status res0"
      and "json_parse (Response.Body res0) = Some (JObject kvs)"
      and "list_all (\<lambda>kv. foldName (fst kv) \<noteq> foldName ''message'') kvs"
  shows "ret_err (do exchange encode unmarshal c method path in' out) = Some (GitlabError (Some new_Error))"
  using assms by (simp add: do_error_object fill_no_field)

lemma do_error_not_null:
  assumes "exchange (new_request encode method path in') = Inr res0"
      and "300 < Status res0"
      and "json_parse (Response.Body res0) \<noteq> Some JNull"
  shows "\<exists>e. ret_err (do exchange encode unmarshal c method path in' out) = Some (GitlabError (Some e))"
proof (cases "json_parse (Response.Body res0)")
  case None
  with assms show ?thesis by (simp add: do_error_status Unmarshal_ptr_ptr_def)
next
  case (Some v)
  with assms show ?thesis
    by (cases v) (simp_all add: do_error_status Unmarshal_ptr_ptr_def split: prod.splits)
qed

text \<open>
  Claim C6: after every completed exchange, whatever its status, the request id and the
  rate-limit triple are read from the headers before the status is looked at and the rate
  state is overwritten with them; a missing or unparseable header gives the zero value and
  no failure is passed on. The integer parsers return the nearest bound together with a
  range error for a decimal number that does not fit 64 bits, and the executor drops the
  error and keeps the value: such a header gives the bound, not zero.
\<close>

theorem C6_out_of_range_header_not_zero:
  \<open>Atoi ''9223372036854775808'' = (9223372036854775807, Some ErrRange)
   \<and> do (\<lambda>req. Inr (received 200 [(''Ratelimit-Limit'', [''9223372036854775808''])] []))
        no_encode Unmarshal_gl_namespace new_Client ''GET'' ''api/v4/user'' None None
     = \<lparr>ret_client = \<lparr>rate = \<lparr>Limit = 9223372036854775807, Remaining = 0, Reset = 0\<rparr>\<rparr>,
        ret_res = Some \<lparr>Response.ID = [], Status = 200,
                         Header = [(''Ratelimit-Limit'', [''9223372036854775808''])], Body = [],
                         Rate = \<lparr>Limit = 9223372036854775807, Remaining = 0, Reset = 0\<rparr>\<rparr>,
        ret_err = None, ret_out = None\<rparr>\<close>
  by code_simp

text \<open>
  Claim C6, amended: after every completed exchange, whatever its status, the client's
  rate and the rate and id of the returned response are the ones read from the headers,
  and the error that \<^verbatim>\<open>do\<close> returns does not depend on the headers. Each field of the rate
  is the value \<open>spec_header_value\<close> of its header: 0 for a header that is missing, empty or
  only a sign; for an optional sign followed by decimal digits only, the number, or the
  nearest bound of the signed 64-bit range when the number is outside it; 0 for any other
  text, except that digits in front of the first other character that already write a
  number above \<open>2\<^sup>6\<^sup>4 - 1\<close> give the bound on the side of the sign. The witness is an error
  response with the three headers 600, 599 and 1700000000, a response whose limit is no
  number, whose remaining count is missing and whose reset time is below the range, and a
  response with the headers \<^verbatim>\<open>99999999999999999999x\<close>, \<^verbatim>\<open>+42\<close> and \<^verbatim>\<open>12x\<close>.
\<close>

theorem C6_rate_snapshot:
  assumes "exchange (new_request encode method path in') = Inr res0"
  shows "rate (ret_client (do exchange encode unmarshal c method path in' out)) = spec_rate (Response.Header res0)
       \<and> map_option Rate (ret_res (do exchange encode unmarshal c method path in' out))
           = Some (spec_rate (Response.Header res0))
       \<and> map_option Response.ID (ret_res (do exchange encode unmarshal c method path in' out))
           = Some (Header_Get (Response.Header res0) ''X-Request-Id'')
       \<and> (\<forall>key. map_of (Response.Header res0) (CanonicalMIMEHeaderKey key) = None
              \<longrightarrow> spec_header_value (Header_Get (Response.Header res0) key) = 0)
       \<and> (\<forall>h. ret_err (do (\<lambda>req. Inr (res0\<lparr>Response.Header := h\<rparr>)) encode unmarshal c method path in' out)
              = ret_err (do exchange encode unmarshal c method path in' out))"
proof -
  let ?r = "do exchange encode unmarshal c method path in' out"
  have r: "ret_client ?r = SetRate c (Rate (read_headers res0)) \<and> ret_res ?r = Some (read_headers res0)"
    using assms by (cases out) (simp_all add: do_def Let_def split: prod.splits)
  have 1: "rate (ret_client ?r) = spec_rate (Response.Header res0)"
    using r by (simp add: SetRate_def Rate_read_headers header_rate_spec)
  have 2: "map_option Rate (ret_res ?r) = Some (spec_rate (Response.Header res0))"
    using r by (simp add: Rate_read_headers header_rate_spec)
  have 3: "map_option Response.ID (ret_res ?r) = Some (Header_Get (Response.Header res0) ''X-Request-Id'')"
    using r by (simp add: ID_read_headers)
  have 4: "\<forall>key. map_of (Response.Header res0) (CanonicalMIMEHeaderKey key) = None
              \<longrightarrow> spec_header_value (Header_Get (Response.Header res0) key) = 0"
    by (simp add: Header_Get_missing spec_header_value_def after_sign_def)
  have 5: "\<forall>h. ret_err (do (\<lambda>req. Inr (res0\<lparr>Response.Header := h\<rparr>)) encode unmarshal c method path in' out)
              = ret_err ?r"
    using assms by (cases out) (simp_all add: do_def Let_def read_headers_def split: prod.splits)
  from 1 2 3 4 5 show ?thesis by blast
qed

theorem C6_rate_snapshot_witness:
  \<open>rate (ret_client (do (\<lambda>req. Inr (received 404 [(''Ratelimit-Limit'', [''600'']), (''Ratelimit-Remaining'', [''599'']),
        (''Ratelimit-Reset'', [''1700000000''])] ''{"message":"not found"}'')) no_encode Unmarshal_gl_namespace
        new_Client ''GET'' ''api/v4/user'' None None))
     = \<lparr>Limit = 600, Remaining = 599, Reset = 1700000000\<rparr>
   \<and> rate (ret_client (do (\<lambda>req. Inr (received 200 [(''Ratelimit-Limit'', [''soon'']),
        (''Ratelimit-Reset'', [''-9223372036854775809''])] [])) no_encode Unmarshal_gl_namespace
        new_Client ''GET'' ''api/v4/user'' None None))
     = \<lparr>Limit = 0, Remaining = 0, Reset = - 9223372036854775808\<rparr>
   \<and> ret_err (do (\<lambda>req. Inr (received 200 [(''Ratelimit-Limit'', [''soon'']),
        (''Ratelimit-Reset'', [''-9223372036854775809''])] [])) no_encode Unmarshal_gl_namespace
        new_Client ''GET'' ''api/v4/user'' None None)
     = None
   \<and> rate (ret_client (do (\<lambda>req. Inr (received 200 [(''Ratelimit-Limit'', [''99999999999999999999x'']),
        (''Ratelimit-Remaining'', [''+42'']), (''Ratelimit-Reset'', [''12x''])] [])) no_encode
        Unmarshal_gl_namespace new_Client ''GET'' ''api/v4/user'' None None))
     = \<lparr>Limit = 9223372036854775807, Remaining = 42, Reset = 0\<rparr>\<close>
proof -
  let ?res1 = \<open>received 404 [(''Ratelimit-Limit'', [''600'']), (''Ratelimit-Remaining'', [''599'']),
        (''Ratelimit-Reset'', [''1700000000''])] ''{"message":"not found"}''\<close>
  let ?res2 = \<open>received 200 [(''Ratelimit-Limit'', [''soon'']),
        (''Ratelimit-Reset'', [''-9223372036854775809''])] []\<close>
  let ?res3 = \<open>received 200 [(''Ratelimit-Limit'', [''99999999999999999999x'']),
        (''Ratelimit-Remaining'', [''+42'']), (''Ratelimit-Reset'', [''12x''])] []\<close>
  have h1: "(\<lambda>req. Inr ?res1) (new_request no_encode ''GET'' ''api/v4/user'' None) = (Inr ?res1 :: error + Response)"
    by simp
  have h2: "(\<lambda>req. Inr ?res2) (new_request no_encode ''GET'' ''api/v4/user'' None) = (Inr ?res2 :: error + Response)"
    by simp
  have h3: "(\<lambda>req. Inr ?res3) (new_request no_encode ''GET'' ''api/v4/user'' None) = (Inr ?res3 :: error + Response)"
    by simp
  have v1: "spec_rate (Response.Header ?res1) = \<lparr>Limit = 600, Remaining = 599, Reset = 1700000000\<rparr>"
    by code_simp
  have v2: "spec_rate (Response.Header ?res2) = \<lparr>Limit = 0, Remaining = 0, Reset = - 9223372036854775808\<rparr>"
    by code_simp
  have v3: "spec_rate (Response.Header ?res3) = \<lparr>Limit = 9223372036854775807, Remaining = 42, Reset = 0\<rparr>"
    by code_simp
  have e2: "ret_err (do (\<lambda>req. Inr ?res2) no_encode Unmarshal_gl_namespace new_Client ''GET'' ''api/v4/user'' None None) = None"
    by (simp add: do_success_no_out received_def)
  show ?thesis
    using C6_rate_snapshot [of "\<lambda>req. Inr ?res1" no_encode "''GET''" "''api/v4/user''" None ?res1
        Unmarshal_gl_namespace new_Client None, OF h1]
      C6_rate_snapshot [of "\<lambda>req. Inr ?res2" no_encode "''GET''" "''api/v4/user''" None ?res2
        Unmarshal_gl_namespace new_Client None, OF h2]
      C6_rate_snapshot [of "\<lambda>req. Inr ?res3" no_encode "''GET''" "''api/v4/user''" None ?res3
        Unmarshal_gl_namespace new_Client None, OF h3]
      v1 v2 v3 e2
    by simp
qed




text \<open>
  Claim C8: array-unwrap decoding of a success body that is empty or shorter than two
  characters fails with an error, not with an out-of-range access. The slice expression
  \<^verbatim>\<open>buf.String()[1:len(str_buf)-1]\<close> is evaluated without a length check, so both the
  empty body of a 204 response and a body of one character make \<^verbatim>\<open>do_gl_namespace\<close>
  panic.
\<close>

theorem C8_short_body_panics:
  \<open>do_gl_namespace (\<lambda>req. Inr (received 204 [] '''')) no_encode Unmarshal_gl_namespace new_Client
      ''GET'' ''api/v4/namespaces?search=acme'' None (Some (Some new_gl_namespace))
     = Panicked SliceBoundsOutOfRange
   \<and> do_gl_namespace (\<lambda>req. Inr (received 200 [] ''['')) no_encode Unmarshal_gl_namespace new_Client
      ''GET'' ''api/v4/namespaces?search=acme'' None (Some (Some new_gl_namespace))
     = Panicked SliceBoundsOutOfRange\<close>
  by code_simp

text \<open>The same for every success body of fewer than two bytes: \<open>gl_short_body\<close>.\<close>

text \<open>
  Claim C9: \<^verbatim>\<open>findNamespaceByName\<close> sends \<^verbatim>\<open>search=<name>\<close> to the namespace listing and
  decodes the array-shaped success body through the array-unwrapping mode, returning the
  namespace in the array. The request is as claimed, but the function calls \<^verbatim>\<open>c.do\<close>,
  not \<^verbatim>\<open>c.do_gl_namespace\<close>: the array is handed to \<^verbatim>\<open>json.Unmarshal\<close> as it is, which
  reports a type error and leaves the namespace empty. \<^verbatim>\<open>do_gl_namespace\<close> on the same
  exchange gives the namespace with id 1 and name \<^verbatim>\<open>acme\<close>.
\<close>

theorem C9_lookup_does_not_unwrap:
  \<open>namespace_request ''acme'' = \<lparr>Method = ''GET'', Path = ''api/v4/namespaces?search=acme'', Header = [], Body = None\<rparr>
   \<and> findNamespaceByName
        (\<lambda>req. if req = namespace_request ''acme'' then Inr (received 200 [] ''[{"id":1,"name":"acme"}]'')
               else Inl (TransportError ''unexpected request''))
        new_Client ''acme''
      = (new_Client, Some new_gl_namespace, Some UnmarshalTypeError)
   \<and> do_gl_namespace
        (\<lambda>req. if req = namespace_request ''acme'' then Inr (received 200 [] ''[{"id":1,"name":"acme"}]'')
               else Inl (TransportError ''unexpected request''))
        no_encode Unmarshal_gl_namespace new_Client ''GET'' ''api/v4/namespaces?search=acme'' None
        (Some (Some new_gl_namespace))
      = Returned \<lparr>ret_client = new_Client,
                  ret_res = Some (received 200 [] ''[{"id":1,"name":"acme"}]''),
                  ret_err = None,
                  ret_out = Some (Some (new_gl_namespace\<lparr>gl_namespace.ID := 1, gl_namespace.Name := ''acme''\<rparr>))\<rparr>\<close>
  by code_simp

text \<open>
  The request part of the claim holds: the lookup consults the exchange with the request
  \<^verbatim>\<open>GET api/v4/namespaces?search=<name>\<close> (the name query-escaped) and with no other.
\<close>

lemma findNamespaceByName_request:
  assumes "exchange (namespace_request name) = exchange' (namespace_request name)"
  shows "findNamespaceByName exchange c name = findNamespaceByName exchange' c name"
  using assms
  by (simp add: findNamespaceByName_do do_def Let_def new_request_namespace)

text \<open>
  Claim C10: \<^verbatim>\<open>findNamespaceByName\<close> returns a non-nil namespace for every name and every
  outcome of the HTTP call. \<^verbatim>\<open>do\<close> is given \<^verbatim>\<open>&out\<close>, so a success response whose body
  is the JSON literal \<^verbatim>\<open>null\<close> sets \<^verbatim>\<open>out\<close> to nil: the function returns nil and no
  error.
\<close>

theorem C10_null_body_gives_nil:
  \<open>findNamespaceByName (\<lambda>req. Inr (received 200 [] ''null'')) new_Client ''acme'' = (new_Client, None, None)\<close>
  by code_simp

text \<open>
  Claim C10, amended: \<^verbatim>\<open>findNamespaceByName\<close> returns nil only for a response with
  status at most 300 whose body is the JSON literal \<^verbatim>\<open>null\<close> (and then no error). In
  every other case it returns the object it allocated; in particular it returns a non-nil
  namespace whenever it returns an error, and that namespace has all fields zero when the
  exchange itself failed, when the status is above 300, when the body is no valid JSON and
  when the body is a JSON value that is neither \<^verbatim>\<open>null\<close> nor an object.
\<close>

theorem C10_namespace_nil_only_for_null:
  "(\<forall>e. exchange (namespace_request name) = Inl e \<longrightarrow>
        findNamespaceByName exchange c name = (c, Some new_gl_namespace, Some e))
   \<and> (\<forall>res. exchange (namespace_request name) = Inr res \<and> 300 < Status res \<longrightarrow>
        fst (snd (findNamespaceByName exchange c name)) = Some new_gl_namespace
        \<and> snd (snd (findNamespaceByName exchange c name)) \<noteq> None)
   \<and> (\<forall>res. exchange (namespace_request name) = Inr res \<and> Status res \<le> 300
              \<and> json_parse (Response.Body res) = None \<longrightarrow>
        snd (findNamespaceByName exchange c name) = (Some new_gl_namespace, Some SyntaxError))
   \<and> (\<forall>res v. exchange (namespace_request name) = Inr res \<and> Status res \<le> 300
              \<and> json_parse (Response.Body res) = Some v \<and> v \<noteq> JNull \<and> (\<forall>kvs. v \<noteq> JObject kvs) \<longrightarrow>
        snd (findNamespaceByName exchange c name) = (Some new_gl_namespace, Some UnmarshalTypeError))
   \<and> (\<forall>res v. exchange (namespace_request name) = Inr res \<and> Status res \<le> 300
              \<and> json_parse (Response.Body res) = Some v \<and> v \<noteq> JNull \<longrightarrow>
        fst (snd (findNamespaceByName exchange c name)) \<noteq> None)
   \<and> (\<forall>res. exchange (namespace_request name) = Inr res \<and> Status res \<le> 300
              \<and> json_parse (Response.Body res) = Some JNull \<longrightarrow>
        snd (findNamespaceByName exchange c name) = (None, None))
   \<and> (snd (snd (findNamespaceByName exchange c name)) \<noteq> None \<longrightarrow>
        fst (snd (findNamespaceByName exchange c name)) \<noteq> None)"
proof -
  let ?f = "findNamespaceByName exchange c name"
  have A: "\<forall>e. exchange (namespace_request name) = Inl e \<longrightarrow> ?f = (c, Some new_gl_namespace, Some e)"
    by (simp add: find_transport)
  have B: "\<forall>res. exchange (namespace_request name) = Inr res \<and> 300 < Status res \<longrightarrow>
        fst (snd ?f) = Some new_gl_namespace \<and> snd (snd ?f) \<noteq> None"
    using find_error_status by blast
  have C: "\<forall>res. exchange (namespace_request name) = Inr res \<and> Status res \<le> 300
              \<and> json_parse (Response.Body res) = None \<longrightarrow>
        snd ?f = (Some new_gl_namespace, Some SyntaxError)"
    by (simp add: find_success Unmarshal_gl_syntax)
  have D: "\<forall>res v. exchange (namespace_request name) = Inr res \<and> Status res \<le> 300
              \<and> json_parse (Response.Body res) = Some v \<and> v \<noteq> JNull \<and> (\<forall>kvs. v \<noteq> JObject kvs) \<longrightarrow>
        snd ?f = (Some new_gl_namespace, Some UnmarshalTypeError)"
    by (simp add: find_success Unmarshal_gl_not_object)
  have E: "\<forall>res v. exchange (namespace_request name) = Inr res \<and> Status res \<le> 300
              \<and> json_parse (Response.Body res) = Some v \<and> v \<noteq> JNull \<longrightarrow>
        fst (snd ?f) \<noteq> None"
    by (simp add: find_success Unmarshal_gl_value)
  have F: "\<forall>res. exchange (namespace_request name) = Inr res \<and> Status res \<le> 300
              \<and> json_parse (Response.Body res) = Some JNull \<longrightarrow>
        snd ?f = (None, None)"
    by (simp add: find_success Unmarshal_gl_null)
  have G: "snd (snd ?f) \<noteq> None \<longrightarrow> fst (snd ?f) \<noteq> None"
  proof (cases "exchange (namespace_request name)")
    case (Inl e)
    then show ?thesis by (simp add: find_transport)
  next
    case (Inr res)
    show ?thesis
    proof (cases "300 < Status res")
      case True
      with Inr show ?thesis by (simp add: find_error_status)
    next
      case False
      then have le: "Status res \<le> 300" by simp
      show ?thesis
      proof (cases "json_parse (Response.Body res)")
        case None
        with Inr le show ?thesis by (simp add: find_success Unmarshal_gl_syntax)
      next
        case (Some v)
        show ?thesis
        proof (cases "v = JNull")
          case True
          with Inr le Some show ?thesis by (simp add: find_success Unmarshal_gl_null)
        next
          case False
          with Inr le Some show ?thesis by (simp add: find_success Unmarshal_gl_value)
        qed
      qed
    qed
  qed
  from A B C D E F G show ?thesis by blast
qed

theorem C10_namespace_nil_only_for_null_witness:
  \<open>findNamespaceByName (\<lambda>req. Inl (TransportError ''timeout'')) new_Client ''acme''
       = (new_Client, Some new_gl_namespace, Some (TransportError ''timeout''))
   \<and> snd (findNamespaceByName (\<lambda>req. Inr (received 404 [] ''{"message":"not found"}'')) new_Client ''acme'')
       = (Some new_gl_namespace, Some (GitlabError (Some \<lparr>Error.Message = ''not found''\<rparr>)))
   \<and> snd (findNamespaceByName (\<lambda>req. Inr (received 200 [] ''{"id":'')) new_Client ''acme'')
       = (Some new_gl_namespace, Some SyntaxError)
   \<and> snd (findNamespaceByName (\<lambda>req. Inr (received 200 [] ''[{"id":1,"name":"acme"}]'')) new_Client ''acme'')
       = (Some new_gl_namespace, Some UnmarshalTypeError)
   \<and> snd (findNamespaceByName (\<lambda>req. Inr (received 200 [] ''{"id":"x","name":"acme"}'')) new_Client ''acme'')
       = (Some (new_gl_namespace\<lparr>gl_namespace.Name := ''acme''\<rparr>), Some UnmarshalTypeError)
   \<and> snd (findNamespaceByName (\<lambda>req. Inr (received 200 [] ''null'')) new_Client ''acme'')
       = (None, None)\<close>
proof -
  note T = C10_namespace_nil_only_for_null [where name = "''acme''" and c = new_Client]
  have s200: "\<And>b. Status (received 200 [] b) \<le> 300" by (simp add: received_def)
  have s404: "\<And>b. 300 < Status (received 404 [] b)" by (simp add: received_def)
  have body: "\<And>s b. Response.Body (received s [] b) = b" by (simp add: received_def)
  have 1: "findNamespaceByName (\<lambda>req. Inl (TransportError ''timeout'')) new_Client ''acme''
       = (new_Client, Some new_gl_namespace, Some (TransportError ''timeout''))"
    using T [where exchange = "\<lambda>req. Inl (TransportError ''timeout'')"] by simp
  have 2: \<open>snd (findNamespaceByName (\<lambda>req. Inr (received 404 [] ''{"message":"not found"}'')) new_Client ''acme'')
       = (Some new_gl_namespace, Some (GitlabError (Some \<lparr>Error.Message = ''not found''\<rparr>)))\<close>
  proof -
    have e: \<open>snd (snd (findNamespaceByName (\<lambda>req. Inr (received 404 [] ''{"message":"not found"}'')) new_Client ''acme''))
       = Some (GitlabError (Some \<lparr>Error.Message = ''not found''\<rparr>))\<close>
      by code_simp
    from T [where exchange = \<open>\<lambda>req. Inr (received 404 [] ''{"message":"not found"}'')\<close>] s404
    have \<open>fst (snd (findNamespaceByName (\<lambda>req. Inr (received 404 [] ''{"message":"not found"}'')) new_Client ''acme''))
       = Some new_gl_namespace\<close>
      by simp
    with e show ?thesis by (simp add: prod_eq_iff)
  qed
  have p3: \<open>json_parse ''{"id":'' = None\<close> by code_simp
  have 3: \<open>snd (findNamespaceByName (\<lambda>req. Inr (received 200 [] ''{"id":'')) new_Client ''acme'')
       = (Some new_gl_namespace, Some SyntaxError)\<close>
    using T [where exchange = \<open>\<lambda>req. Inr (received 200 [] ''{"id":'')\<close>] s200 body p3 by simp
  have p4: \<open>json_parse ''[{"id":1,"name":"acme"}]''
      = Some (JArray [JObject [(''id'', JNumber ''1''), (''name'', JString ''acme'')]])\<close> by code_simp
  have 4: \<open>snd (findNamespaceByName (\<lambda>req. Inr (received 200 [] ''[{"id":1,"name":"acme"}]'')) new_Client ''acme'')
       = (Some new_gl_namespace, Some UnmarshalTypeError)\<close>
    using T [where exchange = \<open>\<lambda>req. Inr (received 200 [] ''[{"id":1,"name":"acme"}]'')\<close>] s200 body p4
    by simp
  have 5: \<open>snd (findNamespaceByName (\<lambda>req. Inr (received 200 [] ''{"id":"x","name":"acme"}'')) new_Client ''acme'')
       = (Some (new_gl_namespace\<lparr>gl_namespace.Name := ''acme''\<rparr>), Some UnmarshalTypeError)\<close>
    by code_simp
  have p6: \<open>json_parse ''null'' = Some JNull\<close> by code_simp
  have 6: \<open>snd (findNamespaceByName (\<lambda>req. Inr (received 200 [] ''null'')) new_Client ''acme'') = (None, None)\<close>
    using T [where exchange = \<open>\<lambda>req. Inr (received 200 [] ''null'')\<close>] s200 body p6 by simp
  from 1 2 3 4 5 6 show ?thesis by simp
qed

lemma those_snoc:
  "those (xs @ [Some v]) = Some vs \<Longrightarrow> \<exists>vs'. vs = vs' @ [v] \<and> those xs = Some vs'"
  by (induction xs arbitrary: vs) (auto split: option.splits)

lemma those_length: "those xs = Some vs \<Longrightarrow> length vs = length xs"
  by (induction xs arbitrary: vs) (auto split: option.splits)

lemma Marshal_map_last:
  assumes "Marshal_map hook = Inr b" and "sort_key fst hook = es @ [(k, Some v)]"
  shows "\<exists>entries. b = render (JObject (entries @ [(k, v)])) \<and> map fst entries = map fst es"
proof -
  from assms obtain vs where vs: "those (map snd es @ [Some v]) = Some vs"
    and b: "b = render (JObject (zip (map fst es @ [k]) vs))"
    by (auto simp: Marshal_map_def Let_def split: option.splits)
  from those_snoc [OF vs] obtain vs' where vs': "vs = vs' @ [v]" "those (map snd es) = Some vs'"
    by blast
  from those_length [OF vs'(2)] have len: "length vs' = length es" by simp
  then have "zip (map fst es @ [k]) vs = zip (map fst es) vs' @ [(k, v)]"
    by (simp add: vs'(1))
  moreover from len have "map fst (zip (map fst es) vs') = map fst es"
    by simp
  ultimately show ?thesis using b
    by (intro exI [of _ "zip (map fst es) vs'"]) simp
qed

lemma join_snoc: "join sep (xs @ [y]) = (if xs = [] then y else join sep xs @ sep @ y)"
  by (induction sep xs rule: join.induct) auto

lemma render_object_last:
  "\<exists>pre. render (JObject (entries @ [(k, v)])) = pre @ quote k @ '':'' @ render v @ ''}''"
  by (cases "entries = []") (simp_all add: join_snoc)

lemma PushHook_sorted:
  "PushHook_MarshalJSON marshal h = Inr b \<Longrightarrow>
   \<exists>entries. b = render (JObject (entries @ [(''type'', JString ''pushHook'')])) \<and>
     map fst entries = [''after'', ''baseRef'', ''before'', ''commit'', ''commits'', ''compare'', ''created'',
        ''deleted'', ''forced'', ''guid'', ''ref'', ''repo'', ''sender'']"
  unfolding PushHook_MarshalJSON_def Let_def
  by (drule Marshal_map_last [where k = "''type''" and v = "JString ''pushHook''"])
     (auto simp add: hook_set_def Marshal_string_def simp del: render.simps)

lemma BranchHook_sorted:
  "BranchHook_MarshalJSON marshal h = Inr b \<Longrightarrow>
   \<exists>entries. b = render (JObject (entries @ [(''type'', JString ''branchHook'')])) \<and>
     map fst entries = [''action'', ''ref'', ''repo'', ''sender'']"
  unfolding BranchHook_MarshalJSON_def Let_def
  by (drule Marshal_map_last [where k = "''type''" and v = "JString ''branchHook''"])
     (auto simp add: hook_set_def Marshal_string_def simp del: render.simps)

lemma DeployHook_sorted:
  "DeployHook_MarshalJSON marshal h = Inr b \<Longrightarrow>
   \<exists>entries. b = render (JObject (entries @ [(''type'', JString ''deployHook'')])) \<and>
     map fst entries = [''data'', ''desc'', ''ref'', ''repo'', ''sender'', ''target'', ''targetUrl'', ''task'']"
  unfolding DeployHook_MarshalJSON_def Let_def
  by (drule Marshal_map_last [where k = "''type''" and v = "JString ''deployHook''"])
     (auto simp add: hook_set_def Marshal_string_def simp del: render.simps)

lemma TagHook_sorted:
  "TagHook_MarshalJSON marshal h = Inr b \<Longrightarrow>
   \<exists>entries. b = render (JObject (entries @ [(''type'', JString ''tagHook'')])) \<and>
     map fst entries = [''action'', ''ref'', ''repo'', ''sender'']"
  unfolding TagHook_MarshalJSON_def Let_def
  by (drule Marshal_map_last [where k = "''type''" and v = "JString ''tagHook''"])
     (auto simp add: hook_set_def Marshal_string_def simp del: render.simps)

lemma IssueHook_sorted:
  "IssueHook_MarshalJSON marshal h = Inr b \<Longrightarrow>
   \<exists>entries. b = render (JObject (entries @ [(''type'', JString ''issueHook'')])) \<and>
     map fst entries = [''action'', ''issue'', ''repo'', ''sender'']"
  unfolding IssueHook_MarshalJSON_def Let_def
  by (drule Marshal_map_last [where k = "''type''" and v = "JString ''issueHook''"])
     (auto simp add: hook_set_def Marshal_string_def simp del: render.simps)

lemma IssueCommentHook_sorted:
  "IssueCommentHook_MarshalJSON marshal h = Inr b \<Longrightarrow>
   \<exists>entries. b = render (JObject (entries @ [(''type'', JString ''issueCommentHook'')])) \<and>
     map fst entries = [''action'', ''comment'', ''issue'', ''repo'', ''sender'']"
  unfolding IssueCommentHook_MarshalJSON_def Let_def
  by (drule Marshal_map_last [where k = "''type''" and v = "JString ''issueCommentHook''"])
     (auto simp add: hook_set_def Marshal_string_def simp del: render.simps)

lemma PullRequestHook_sorted:
  "PullRequestHook_MarshalJSON marshal h = Inr b \<Longrightarrow>
   \<exists>entries. b = render (JObject (entries @ [(''type'', JString ''pullRequestHook'')])) \<and>
     map fst entries = [''action'', ''changes'', ''guid'', ''label'', ''pullRequest'', ''repo'', ''sender'']"
  unfolding PullRequestHook_MarshalJSON_def Let_def
  by (drule Marshal_map_last [where k = "''type''" and v = "JString ''pullRequestHook''"])
     (auto simp add: hook_set_def Marshal_string_def simp del: render.simps)

lemma PullRequestCommentHook_sorted:
  "PullRequestCommentHook_MarshalJSON marshal h = Inr b \<Longrightarrow>
   \<exists>entries. b = render (JObject (entries @ [(''type'', JString ''pullRequestCommentHook'')])) \<and>
     map fst entries = [''action'', ''comment'', ''pullRequest'', ''repo'', ''sender'']"
  unfolding PullRequestCommentHook_MarshalJSON_def Let_def
  by (drule Marshal_map_last [where k = "''type''" and v = "JString ''pullRequestCommentHook''"])
     (auto simp add: hook_set_def Marshal_string_def simp del: render.simps)

lemma ReviewCommentHook_sorted:
  "ReviewCommentHook_MarshalJSON marshal h = Inr b \<Longrightarrow>
   \<exists>entries. b = render (JObject (entries @ [(''type'', JString ''reviewCommentHook'')])) \<and>
     map fst entries = [''action'', ''pullRequest'', ''repo'', ''review'']"
  unfolding ReviewCommentHook_MarshalJSON_def Let_def
  by (drule Marshal_map_last [where k = "''type''" and v = "JString ''reviewCommentHook''"])
     (auto simp add: hook_set_def Marshal_string_def simp del: render.simps)

lemma MarshalJSON_entries:
  assumes "MarshalJSON marshal w = Returned (Inr b)"
  shows "\<exists>entries. b = render (JObject (entries @ [(''type'', JString (spec_discriminator w))]))
           \<and> sorted_wrt (<) (map fst entries @ [''type''])"
proof (cases w)
  case (PushHookPtr p)
  with assms obtain h where "PushHook_MarshalJSON marshal h = Inr b"
    by (auto simp: on_pointer_def split: option.splits)
  from PushHook_sorted [OF this] PushHookPtr show ?thesis by auto
next
  case (BranchHookPtr p)
  with assms obtain h where "BranchHook_MarshalJSON marshal h = Inr b"
    by (auto simp: on_pointer_def split: option.splits)
  from BranchHook_sorted [OF this] BranchHookPtr show ?thesis by auto
next
  case (DeployHookPtr p)
  with assms obtain h where "DeployHook_MarshalJSON marshal h = Inr b"
    by (auto simp: on_pointer_def split: option.splits)
  from DeployHook_sorted [OF this] DeployHookPtr show ?thesis by auto
next
  case (TagHookPtr p)
  with assms obtain h where "TagHook_MarshalJSON marshal h = Inr b"
    by (auto simp: on_pointer_def split: option.splits)
  from TagHook_sorted [OF this] TagHookPtr show ?thesis by auto
next
  case (IssueHookPtr p)
  with assms obtain h where "IssueHook_MarshalJSON marshal h = Inr b"
    by (auto simp: on_pointer_def split: option.splits)
  from IssueHook_sorted [OF this] IssueHookPtr show ?thesis by auto
next
  case (IssueCommentHookPtr p)
  with assms obtain h where "IssueCommentHook_MarshalJSON marshal h = Inr b"
    by (auto simp: on_pointer_def split: option.splits)
  from IssueCommentHook_sorted [OF this] IssueCommentHookPtr show ?thesis by auto
next
  case (PullRequestHookPtr p)
  with assms obtain h where "PullRequestHook_MarshalJSON marshal h = Inr b"
    by (auto simp: on_pointer_def split: option.splits)
  from PullRequestHook_sorted [OF this] PullRequestHookPtr show ?thesis by auto
next
  case (PullRequestCommentHookPtr p)
  with assms obtain h where "PullRequestCommentHook_MarshalJSON marshal h = Inr b"
    by (auto simp: on_pointer_def split: option.splits)
  from PullRequestCommentHook_sorted [OF this] PullRequestCommentHookPtr show ?thesis by auto
next
  case (ReviewCommentHookPtr p)
  with assms obtain h where "ReviewCommentHook_MarshalJSON marshal h = Inr b"
    by (auto simp: on_pointer_def split: option.splits)
  from ReviewCommentHook_sorted [OF this] ReviewCommentHookPtr show ?thesis by auto
qed

lemma Marshal_map_total:
  "\<forall>kv \<in> set hook. snd kv \<noteq> None \<Longrightarrow> \<exists>b. Marshal_map hook = Inr b"
proof -
  assume a: "\<forall>kv \<in> set hook. snd kv \<noteq> None"
  have t: "\<And>xs. (\<forall>x \<in> set xs. x \<noteq> None) \<Longrightarrow> \<exists>vs. those xs = Some vs"
  proof -
    fix xs :: "'a option list"
    show "(\<forall>x \<in> set xs. x \<noteq> None) \<Longrightarrow> \<exists>vs. those xs = Some vs"
      by (induction xs) auto
  qed
  have "\<forall>x \<in> set (map snd (sort_key fst hook)). x \<noteq> None"
    using a by auto
  from t [OF this] show ?thesis
    by (auto simp: Marshal_map_def Let_def)
qed

lemma MarshalJSON_total:
  assumes "\<forall>x. marshal x \<noteq> None" and "\<not> nil_pointer w"
  shows "\<exists>b. MarshalJSON marshal w = Returned (Inr b)"
proof -
  have c: "\<And>ch. Marshal_Changes marshal ch \<noteq> None"
    using assms(1) by (auto simp: Marshal_Changes_def split: option.splits)
  have m: "\<And>hook. \<forall>kv \<in> set hook. snd kv \<noteq> None \<Longrightarrow> \<exists>b. Returned (Marshal_map hook) = Returned (Inr b)"
    using Marshal_map_total by auto
  show ?thesis
  proof (cases w)
    case (PushHookPtr p)
    with assms show ?thesis
      by (auto simp: on_pointer_def PushHook_MarshalJSON_def Let_def hook_set_def Marshal_string_def
            Marshal_bool_def Marshal_PushCommits_def intro!: Marshal_map_total split: option.splits)
  next
    case (BranchHookPtr p)
    with assms show ?thesis
      by (auto simp: on_pointer_def BranchHook_MarshalJSON_def Let_def hook_set_def Marshal_string_def
            intro!: Marshal_map_total)
  next
    case (DeployHookPtr p)
    with assms show ?thesis
      by (auto simp: on_pointer_def DeployHook_MarshalJSON_def Let_def hook_set_def Marshal_string_def
            intro!: Marshal_map_total)
  next
    case (TagHookPtr p)
    with assms show ?thesis
      by (auto simp: on_pointer_def TagHook_MarshalJSON_def Let_def hook_set_def Marshal_string_def
            intro!: Marshal_map_total)
  next
    case (IssueHookPtr p)
    with assms show ?thesis
      by (auto simp: on_pointer_def IssueHook_MarshalJSON_def Let_def hook_set_def Marshal_string_def
            intro!: Marshal_map_total)
  next
    case (IssueCommentHookPtr p)
    with assms show ?thesis
      by (auto simp: on_pointer_def IssueCommentHook_MarshalJSON_def Let_def hook_set_def Marshal_string_def
            intro!: Marshal_map_total)
  next
    case (PullRequestHookPtr p)
    with assms c show ?thesis
      by (auto simp: on_pointer_def PullRequestHook_MarshalJSON_def Let_def hook_set_def Marshal_string_def
            Marshal_Label_def intro!: Marshal_map_total)
  next
    case (PullRequestCommentHookPtr p)
    with assms show ?thesis
      by (auto simp: on_pointer_def PullRequestCommentHook_MarshalJSON_def Let_def hook_set_def Marshal_string_def
            intro!: Marshal_map_total)
  next
    case (ReviewCommentHookPtr p)
    with assms show ?thesis
      by (auto simp: on_pointer_def ReviewCommentHook_MarshalJSON_def Let_def hook_set_def Marshal_string_def
            intro!: Marshal_map_total)
  qed
qed

lemma UnmarshalJSON_cases:
  "UnmarshalJSON wu b =
     (case snd (Unmarshal_map_RawMessage b) of
        Some err \<Rightarrow> Returned (wu, Some err)
      | None \<Rightarrow> Panicked NilPointerDereference)"
  by (simp add: UnmarshalJSON_def dispatch_def split: prod.splits option.splits)

lemma UnmarshalJSON_never_decodes:
  "UnmarshalJSON wu b = Panicked NilPointerDereference \<or> (\<exists>err. UnmarshalJSON wu b = Returned (wu, Some err))"
  by (simp add: UnmarshalJSON_cases split: option.splits)

lemma UnmarshalJSON_object_panics:
  "json_parse b = Some (JObject kvs) \<Longrightarrow> UnmarshalJSON wu b = Panicked NilPointerDereference"
  by (simp add: UnmarshalJSON_cases Unmarshal_map_RawMessage_def)

lemma UnmarshalJSON_not_json:
  "json_parse b = None \<Longrightarrow> UnmarshalJSON wu b = Returned (wu, Some SyntaxError)"
  by (simp add: UnmarshalJSON_cases Unmarshal_map_RawMessage_def)

lemma decode_branch_keeps_webhook:
  "decode_branch wu rawMessage h = Returned (wu', e) \<Longrightarrow> wu' = wu \<and> e \<noteq> None"
  by (auto simp: decode_branch_def Unmarshal_nil_def split: option.splits)

lemma dispatch_keeps_webhook:
  "dispatch wu rawMessage = Returned (wu', e) \<Longrightarrow> wu' = wu"
  by (auto simp: dispatch_def split: option.splits prod.splits if_splits dest: decode_branch_keeps_webhook)

lemma dispatch_unknown_type:
  assumes "Unmarshal_map_string raw = (m, None)"
      and "index m ''type'' \<notin> {''pushHook'', ''branchHook'', ''deployHook'', ''tagHook'', ''issueHook'',
             ''issueCommentHook'', ''pullRequestHook'', ''pullRequestCommentHook'', ''reviewCommentHook''}"
  shows "dispatch wu (Some raw) = Returned (wu, None)"
  using assms by (simp add: dispatch_def)

text \<open>
  Claim C1: for each of the nine webhook variants, decoding the JSON that encoding the
  variant produced gives the variant back. \<^verbatim>\<open>UnmarshalJSON\<close> dereferences the local
  \<^verbatim>\<open>rawMessage\<close>, which is never assigned and so is nil, as soon as its input has parsed
  as a JSON object: on the encoding of an \<^verbatim>\<open>IssueHook\<close> it panics. Were the pointer
  set to the input, the same encoding would be rejected with a type error (its values are
  not all strings, and it is decoded into a \<^verbatim>\<open>map[string]string\<close>), and a flat object
  with a known type would be rejected because the hook pointer \<^verbatim>\<open>h\<close> it is decoded into
  is nil.
\<close>

theorem C1_roundtrip_panics:
  \<open>MarshalJSON Some (IssueHookPtr (Some example_IssueHook))
     = Returned (Inr ''{"action":"opened","issue":{"Number":7},"repo":{"Name":"app"},"sender":{"Login":"kim"},"type":"issueHook"}'')
   \<and> UnmarshalJSON (new_WebhookUnmarshaler :: json WebhookUnmarshaler)
        ''{"action":"opened","issue":{"Number":7},"repo":{"Name":"app"},"sender":{"Login":"kim"},"type":"issueHook"}''
     = Panicked NilPointerDereference
   \<and> dispatch (new_WebhookUnmarshaler :: json WebhookUnmarshaler)
        (Some ''{"action":"opened","issue":{"Number":7},"repo":{"Name":"app"},"sender":{"Login":"kim"},"type":"issueHook"}'')
     = Returned (new_WebhookUnmarshaler, Some UnmarshalTypeError)
   \<and> dispatch (new_WebhookUnmarshaler :: json WebhookUnmarshaler) (Some ''{"type":"issueHook"}'')
     = Returned (new_WebhookUnmarshaler, Some InvalidUnmarshalError)\<close>
  by code_simp

text \<open>
  For every input, \<^verbatim>\<open>UnmarshalJSON\<close> panics or returns an error of the JSON library;
  it never returns a webhook (\<open>UnmarshalJSON_never_decodes\<close>), and it panics on every
  JSON object (\<open>UnmarshalJSON_object_panics\<close>).
\<close>

text \<open>
  Claim C2: decoding a JSON object whose \<^verbatim>\<open>type\<close> is none of the nine literals, or that
  has no \<^verbatim>\<open>type\<close>, fails with an "unrecognized webhook type" condition of its own,
  different from a parse failure of malformed JSON. \<^verbatim>\<open>UnmarshalJSON\<close> panics on both
  objects (the nil \<^verbatim>\<open>rawMessage\<close>), and its if-chain has no final \<^verbatim>\<open>else\<close>: were the
  pointer set to the input, both objects would fall through to \<^verbatim>\<open>return nil\<close>, a
  success that leaves the webhook nil. Malformed JSON is returned as a syntax error.
\<close>

theorem C2_unknown_type_not_reported:
  \<open>UnmarshalJSON (new_WebhookUnmarshaler :: json WebhookUnmarshaler) ''{"type":"bogus"}''
     = Panicked NilPointerDereference
   \<and> UnmarshalJSON (new_WebhookUnmarshaler :: json WebhookUnmarshaler) ''{"ref":"main"}''
     = Panicked NilPointerDereference
   \<and> dispatch (new_WebhookUnmarshaler :: json WebhookUnmarshaler) (Some ''{"type":"bogus"}'')
     = Returned (new_WebhookUnmarshaler, None)
   \<and> dispatch (new_WebhookUnmarshaler :: json WebhookUnmarshaler) (Some ''{"ref":"main"}'')
     = Returned (new_WebhookUnmarshaler, None)
   \<and> UnmarshalJSON (new_WebhookUnmarshaler :: json WebhookUnmarshaler) ''{"type":''
     = Returned (new_WebhookUnmarshaler, Some SyntaxError)\<close>
  by code_simp

text \<open>The fall-through for every object with another type: \<open>dispatch_unknown_type\<close>.\<close>

text \<open>
  Claim C3: encoding emits a JSON object with a \<^verbatim>\<open>type\<close> key whose value is the
  discriminator literal of the variant, and that key is the first marker of the encoding.
  The methods build a Go map, which \<^verbatim>\<open>json.Marshal\<close> writes with its keys in ascending
  order: in the encoding of a \<^verbatim>\<open>BranchHook\<close> the first key is \<^verbatim>\<open>action\<close> and
  \<^verbatim>\<open>type\<close> is the last.
\<close>

theorem C3_type_key_not_first:
  \<open>MarshalJSON Some (BranchHookPtr (Some example_BranchHook))
     = Returned (Inr ''{"action":"create","ref":{"Name":"main"},"repo":{"Name":"app"},"sender":{"Login":"kim"},"type":"branchHook"}'')
   \<and> json_parse ''{"action":"create","ref":{"Name":"main"},"repo":{"Name":"app"},"sender":{"Login":"kim"},"type":"branchHook"}''
     = Some (JObject [(''action'', JString ''create''), (''ref'', JObject [(''Name'', JString ''main'')]),
              (''repo'', JObject [(''Name'', JString ''app'')]), (''sender'', JObject [(''Login'', JString ''kim'')]),
              (''type'', JString ''branchHook'')])\<close>
  by code_simp

text \<open>
  Claim C3, amended: whenever encoding a variant returns bytes, they are a JSON object
  whose keys are strictly ascending and whose last entry is the key \<^verbatim>\<open>type\<close> with
  exactly the discriminator literal of the variant; the text ends with that entry and the
  closing brace. Encoding returns bytes for every variant held by a non-nil pointer whose
  values can all be encoded.
\<close>

theorem C3_type_key_last:
  "(MarshalJSON marshal w = Returned (Inr b) \<longrightarrow>
      (\<exists>entries. b = render (JObject (entries @ [(''type'', JString (spec_discriminator w))]))
          \<and> sorted_wrt (<) (map fst entries @ [''type'']))
      \<and> (\<exists>pre. b = pre @ quote ''type'' @ '':'' @ quote (spec_discriminator w) @ ''}''))
   \<and> ((\<forall>x. marshal x \<noteq> None) \<and> \<not> nil_pointer w \<longrightarrow>
        (\<exists>b'. MarshalJSON marshal w = Returned (Inr b')))"
proof -
  have 1: "(\<exists>entries. b = render (JObject (entries @ [(''type'', JString (spec_discriminator w))]))
              \<and> sorted_wrt (<) (map fst entries @ [''type'']))
         \<and> (\<exists>pre. b = pre @ quote ''type'' @ '':'' @ quote (spec_discriminator w) @ ''}'')"
    if enc: "MarshalJSON marshal w = Returned (Inr b)"
  proof -
    from MarshalJSON_entries [OF enc] obtain entries
      where e: "b = render (JObject (entries @ [(''type'', JString (spec_discriminator w))]))"
        and n: "sorted_wrt (<) (map fst entries @ [''type''])"
      by blast
    from render_object_last [of entries "''type''" "JString (spec_discriminator w)"] e
    have "\<exists>pre. b = pre @ quote ''type'' @ '':'' @ quote (spec_discriminator w) @ ''}''"
      by simp
    with e n show ?thesis by blast
  qed
  have 2: "\<exists>b'. MarshalJSON marshal w = Returned (Inr b')"
    if "(\<forall>x. marshal x \<noteq> None) \<and> \<not> nil_pointer w"
    using that MarshalJSON_total [of marshal w] by blast
  from 1 2 show ?thesis by blast
qed

theorem C3_type_key_last_witness:
  \<open>MarshalJSON Some (BranchHookPtr (Some example_BranchHook))
     = Returned (Inr ''{"action":"create","ref":{"Name":"main"},"repo":{"Name":"app"},"sender":{"Login":"kim"},"type":"branchHook"}'')
   \<and> (\<exists>pre. ''{"action":"create","ref":{"Name":"main"},"repo":{"Name":"app"},"sender":{"Login":"kim"},"type":"branchHook"}''
          = pre @ ''"type":"branchHook"}'')\<close>
proof -
  have enc: \<open>MarshalJSON Some (BranchHookPtr (Some example_BranchHook))
     = Returned (Inr ''{"action":"create","ref":{"Name":"main"},"repo":{"Name":"app"},"sender":{"Login":"kim"},"type":"branchHook"}'')\<close>
    by code_simp
  have q: \<open>quote ''type'' @ '':'' @ quote ''branchHook'' @ ''}'' = ''"type":"branchHook"}''\<close>
    by code_simp
  from C3_type_key_last [of Some "BranchHookPtr (Some example_BranchHook)"] enc q show ?thesis
    by simp
qed

end
